theory Spec2Isabelle
  imports Complex_Main "HOL-Library.AList"
begin

section \<open>The metrics logging agent (agents/log-metrics.py)\<close>

text \<open>
  The agent is one function, \<^verbatim>\<open>main\<close>: it reads environment variables, creates
  a directory, builds a dictionary, appends its JSON text to a file and prints a status
  object. The model below makes the process environment, the clock and the filesystem
  explicit arguments of \<^verbatim>\<open>main\<close>, and returns the exit outcome, the text written to
  the two output streams and the filesystem after the run.

  A Python \<^verbatim>\<open>str\<close> is a \<^typ>\<open>string\<close>; a character stands for a code point
  below 256.
\<close>

subsection \<open>Text helpers\<close>

definition newline :: char where
  "newline = CHR 0x0A"

definition dquote :: char where
  "dquote = CHR 0x22"

definition backslash :: char where
  "backslash = CHR 0x5C"

definition digit_char :: "nat \<Rightarrow> char" where
  "digit_char d = char_of (48 + d)"

fun str_of_nat :: "nat \<Rightarrow> string" where
  "str_of_nat n = (if n < 10 then [digit_char n] else str_of_nat (n div 10) @ [digit_char (n mod 10)])"

declare str_of_nat.simps [simp del]

definition str_of_int :: "int \<Rightarrow> string" where
  \<comment> \<open>\<^verbatim>\<open>str(n)\<close> for a Python int\<close>
  "str_of_int i = (if i < 0 then CHR ''-'' # str_of_nat (nat (- i)) else str_of_nat (nat i))"

fun zero_pad :: "nat \<Rightarrow> string \<Rightarrow> string" where
  \<comment> \<open>the \<^verbatim>\<open>%0wd\<close> of string formatting\<close>
  "zero_pad w s = (if length s < w then replicate (w - length s) CHR ''0'' @ s else s)"

definition hex_char :: "nat \<Rightarrow> char" where
  "hex_char d = (if d < 10 then char_of (48 + d) else char_of (87 + d))"

definition hex4 :: "nat \<Rightarrow> string" where
  \<comment> \<open>\<^verbatim>\<open>'{0:04x}'.format(n)\<close> for \<open>n < 65536\<close>\<close>
  "hex4 n = [hex_char (n div 4096 mod 16), hex_char (n div 256 mod 16),
             hex_char (n div 16 mod 16), hex_char (n mod 16)]"

fun join :: "string \<Rightarrow> string list \<Rightarrow> string" where
  \<comment> \<open>\<^verbatim>\<open>sep.join(xs)\<close>\<close>
  "join sep [] = []"
| "join sep [x] = x"
| "join sep (x # y # ys) = x @ sep @ join sep (y # ys)"

fun replace_char :: "char \<Rightarrow> string \<Rightarrow> string \<Rightarrow> string" where
  \<comment> \<open>\<^verbatim>\<open>s.replace(c, new)\<close> for a one-character pattern: every occurrence is replaced\<close>
  "replace_char c new [] = []"
| "replace_char c new (x # xs) = (if x = c then new @ replace_char c new xs else x # replace_char c new xs)"

subsection \<open>JSON values, as Python's json module represents them\<close>

text \<open>
  \<^verbatim>\<open>json.loads\<close> yields \<^verbatim>\<open>None\<close>, \<^verbatim>\<open>bool\<close>, \<^verbatim>\<open>int\<close>, \<^verbatim>\<open>float\<close>,
  \<^verbatim>\<open>str\<close>, \<^verbatim>\<open>list\<close> and \<^verbatim>\<open>dict\<close> values. A dict keeps its keys in insertion
  order, so it is an association list with distinct keys. A finite float is represented
  by the rational number it stands for (rounding to the nearest double is not modelled).
\<close>

datatype pyfloat = Finite rat | NaN | PosInf | NegInf

datatype json =
    JNull
  | JBool bool
  | JInt int
  | JFloat pyfloat
  | JStr string
  | JList "json list"
  | JDict "(string \<times> json) list"

fun truthy :: "json \<Rightarrow> bool" where
  \<comment> \<open>Python's truth value of an object, as tested by \<^verbatim>\<open>if custom_metrics:\<close>\<close>
  "truthy JNull = False"
| "truthy (JBool b) = b"
| "truthy (JInt n) = (n \<noteq> 0)"
| "truthy (JFloat (Finite q)) = (q \<noteq> 0)"
| "truthy (JFloat _) = True"
| "truthy (JStr s) = (s \<noteq> [])"
| "truthy (JList xs) = (xs \<noteq> [])"
| "truthy (JDict kvs) = (kvs \<noteq> [])"

fun is_dict :: "json \<Rightarrow> bool" where
  "is_dict (JDict _) = True"
| "is_dict _ = False"

fun dict_setitem :: "(string \<times> json) list \<Rightarrow> string \<Rightarrow> json \<Rightarrow> (string \<times> json) list" where
  \<comment> \<open>\<^verbatim>\<open>d[k] = v\<close>: an existing key keeps its place, a new key goes last\<close>
  "dict_setitem [] k v = [(k, v)]"
| "dict_setitem ((k', v') # kvs) k v =
     (if k' = k then (k, v) # kvs else (k', v') # dict_setitem kvs k v)"

definition dict_get :: "(string \<times> json) list \<Rightarrow> string \<Rightarrow> json \<Rightarrow> json" where
  \<comment> \<open>\<^verbatim>\<open>d.get(k, default)\<close>\<close>
  "dict_get kvs k d = (case map_of kvs k of None \<Rightarrow> d | Some v \<Rightarrow> v)"

subsection \<open>json.dumps with its default options\<close>

definition escape_ascii_char :: "char \<Rightarrow> string" where
  \<comment> \<open>\<^verbatim>\<open>ESCAPE_ASCII\<close> and \<^verbatim>\<open>ESCAPE_DCT\<close> of json.encoder: everything outside
      \<^verbatim>\<open>' '..'~'\<close>, the double quote and the backslash are escaped\<close>
  "escape_ascii_char c =
     (if c = backslash then [backslash, backslash]
      else if c = dquote then [backslash, dquote]
      else if c = CHR 0x08 then [backslash, CHR ''b'']
      else if c = CHR 0x0C then [backslash, CHR ''f'']
      else if c = CHR 0x0A then [backslash, CHR ''n'']
      else if c = CHR 0x0D then [backslash, CHR ''r'']
      else if c = CHR 0x09 then [backslash, CHR ''t'']
      else if (32::nat) \<le> of_char c \<and> of_char c \<le> (126::nat) then [c]
      else backslash # CHR ''u'' # hex4 (of_char c))"

definition encode_basestring_ascii :: "string \<Rightarrow> string" where
  "encode_basestring_ascii s = dquote # concat (map escape_ascii_char s) @ [dquote]"

fun frac_digits :: "nat \<Rightarrow> nat \<Rightarrow> nat \<Rightarrow> string" where
  \<comment> \<open>the decimal digits of \<open>r / d\<close> (with \<open>r < d\<close>), at most \<open>fuel\<close> of them\<close>
  "frac_digits 0 r d = []"
| "frac_digits (Suc fuel) r d =
     (if r = 0 then [] else digit_char (r * 10 div d) # frac_digits fuel (r * 10 mod d) d)"

definition float_repr :: "pyfloat \<Rightarrow> string" where
  \<comment> \<open>\<^verbatim>\<open>float.__repr__\<close> as json.dumps uses it. Exact for the values with at most 15
      significant digits between 1e-4 and 1e16, where the shortest text that reads back to
      the same double is the decimal expansion itself; CPython switches to exponent
      notation outside that range, which is not modelled.\<close>
  "float_repr x =
     (case x of
        NaN \<Rightarrow> ''NaN''
      | PosInf \<Rightarrow> ''Infinity''
      | NegInf \<Rightarrow> ''-Infinity''
      | Finite q \<Rightarrow>
          (let (n, d) = quotient_of q;
               a = nat \<bar>n\<bar>; dn = nat d;
               fr = frac_digits 17 (a mod dn) dn
           in (if n < 0 then ''-'' else '''') @ str_of_nat (a div dn) @ ''.'' @
              (if fr = [] then ''0'' else fr)))"

fun json_dumps :: "json \<Rightarrow> string" where
  \<comment> \<open>\<^verbatim>\<open>json.dumps(obj)\<close>: separators \<^verbatim>\<open>', '\<close> and \<^verbatim>\<open>': '\<close>, ensure_ascii\<close>
  "json_dumps JNull = ''null''"
| "json_dumps (JBool b) = (if b then ''true'' else ''false'')"
| "json_dumps (JInt n) = str_of_int n"
| "json_dumps (JFloat x) = float_repr x"
| "json_dumps (JStr s) = encode_basestring_ascii s"
| "json_dumps (JList xs) = ''['' @ join '', '' (map json_dumps xs) @ '']''"
| "json_dumps (JDict kvs) =
     ''{'' @ join '', '' (map (\<lambda>kv. encode_basestring_ascii (fst kv) @ '': '' @ json_dumps (snd kv)) kvs) @ ''}''"

subsection \<open>Exceptions and the way a process ends\<close>

text \<open>
  An \<^verbatim>\<open>OSError\<close> carries its errno and the text of \<^verbatim>\<open>str(e)\<close>. A run of the
  agent ends in \<^verbatim>\<open>sys.exit(n)\<close> or in an exception that nothing catches; the
  interpreter turns the latter into a traceback and exit status 1.
\<close>

type_synonym os_error = "nat \<times> string"

datatype exc = AttributeError | ValueError | TypeError | OSError os_error

datatype outcome = Exit int | Uncaught exc

fun exit_status :: "outcome \<Rightarrow> int" where
  "exit_status (Exit n) = n"
| "exit_status (Uncaught e) = 1"

subsection \<open>pathlib: pure POSIX paths\<close>

datatype posix_path = PosixPath (anchor: string) (parts: "string list")

fun split_sep :: "string \<Rightarrow> string \<Rightarrow> string list" where
  \<comment> \<open>\<^verbatim>\<open>s.split('/')\<close>, with the piece read so far as accumulator\<close>
  "split_sep acc [] = [acc]"
| "split_sep acc (c # cs) = (if c = CHR ''/'' then acc # split_sep [] cs else split_sep (acc @ [c]) cs)"

definition splitroot :: "string \<Rightarrow> string \<times> string" where
  \<comment> \<open>\<^verbatim>\<open>_PosixFlavour.splitroot\<close>: exactly two leading slashes are kept, any other
      number of them is one\<close>
  "splitroot part =
     (let stripped = dropWhile (\<lambda>c. c = CHR ''/'') part;
          n = length part - length stripped
      in if n = 0 then ('''', part) else if n = 2 then (''//'', stripped) else (''/'', stripped))"

definition Path :: "string \<Rightarrow> posix_path" where
  \<comment> \<open>\<^verbatim>\<open>Path(s)\<close>: empty components and \<^verbatim>\<open>.\<close> are dropped, \<^verbatim>\<open>..\<close> is kept\<close>
  "Path s = (case splitroot s of (r, rel) \<Rightarrow>
     PosixPath r (filter (\<lambda>x. x \<noteq> [] \<and> x \<noteq> ''.'') (split_sep [] rel)))"

definition path_div :: "posix_path \<Rightarrow> string \<Rightarrow> posix_path" where
  \<comment> \<open>\<^verbatim>\<open>p / name\<close> for a plain file name\<close>
  "path_div p name = PosixPath (anchor p) (parts p @ [name])"

definition path_str :: "posix_path \<Rightarrow> string" where
  \<comment> \<open>\<^verbatim>\<open>str(p)\<close>\<close>
  "path_str p = (if anchor p = [] \<and> parts p = [] then ''.'' else anchor p @ join ''/'' (parts p))"

definition parent :: "posix_path \<Rightarrow> posix_path" where
  "parent p = PosixPath (anchor p) (butlast (parts p))"

subsection \<open>The filesystem\<close>

text \<open>
  A filesystem holds the directories and the regular files that exist, keyed by pure
  path, and the calls that the operating system refuses (permissions, a full disk, a
  read-only mount), each with the errno and message it answers. The anchor of a path
  (the root, or the working directory of a relative path) always exists. Symbolic links
  and the resolution of \<^verbatim>\<open>..\<close> are not modelled.
\<close>

datatype fsop = OpMkdir | OpOpen | OpWrite

record filesystem =
  dirs :: "posix_path list"
  files :: "(posix_path \<times> string) list"
  faults :: "((fsop \<times> posix_path) \<times> (nat \<times> string)) list"

definition is_dir :: "filesystem \<Rightarrow> posix_path \<Rightarrow> bool" where
  "is_dir fs p = (parts p = [] \<or> p \<in> set (dirs fs))"

definition is_file :: "filesystem \<Rightarrow> posix_path \<Rightarrow> bool" where
  "is_file fs p = (parts p \<noteq> [] \<and> map_of (files fs) p \<noteq> None)"

definition read_text :: "filesystem \<Rightarrow> posix_path \<Rightarrow> string" where
  \<comment> \<open>the content of a regular file; empty for a path that is none\<close>
  "read_text fs p = (case map_of (files fs) p of None \<Rightarrow> [] | Some c \<Rightarrow> c)"

definition str_repr :: "string \<Rightarrow> string" where
  \<comment> \<open>\<^verbatim>\<open>repr(s)\<close> of a str of printable ASCII characters without quotes or backslashes\<close>
  "str_repr s = [CHR 0x27] @ s @ [CHR 0x27]"

definition os_error_of :: "nat \<Rightarrow> string \<Rightarrow> posix_path \<Rightarrow> os_error" where
  \<comment> \<open>an \<^verbatim>\<open>OSError(errno, strerror, filename)\<close>; its \<^verbatim>\<open>str\<close> is
      \<^verbatim>\<open>[Errno n] strerror: 'filename'\<close>\<close>
  "os_error_of n msg p =
     (n, ''[Errno '' @ str_of_nat n @ ''] '' @ msg @ '': '' @ str_repr (path_str p))"

definition ENOENT :: nat where "ENOENT = 2"
definition EEXIST :: nat where "EEXIST = 17"
definition ENOTDIR :: nat where "ENOTDIR = 20"
definition EISDIR :: nat where "EISDIR = 21"

definition resolve_parent :: "filesystem \<Rightarrow> posix_path \<Rightarrow> os_error option" where
  \<comment> \<open>what the lookup of the parent directory of \<open>p\<close> answers when it fails\<close>
  "resolve_parent fs p =
     (if is_file fs (parent p) then Some (os_error_of ENOTDIR ''Not a directory'' p)
      else if \<not> is_dir fs (parent p) then Some (os_error_of ENOENT ''No such file or directory'' p)
      else None)"

definition os_mkdir :: "filesystem \<Rightarrow> posix_path \<Rightarrow> os_error + filesystem" where
  \<comment> \<open>\<^verbatim>\<open>os.mkdir(p)\<close>\<close>
  "os_mkdir fs p =
     (if parts p = [] then Inl (os_error_of EEXIST ''File exists'' p)
      else case resolve_parent fs p of
        Some e \<Rightarrow> Inl e
      | None \<Rightarrow>
         (if is_dir fs p \<or> is_file fs p then Inl (os_error_of EEXIST ''File exists'' p)
          else case map_of (faults fs) (OpMkdir, p) of
            Some (n, msg) \<Rightarrow> Inl (os_error_of n msg p)
          | None \<Rightarrow> Inr (fs\<lparr>dirs := dirs fs @ [p]\<rparr>)))"

function mkdir :: "filesystem \<Rightarrow> posix_path \<Rightarrow> bool \<Rightarrow> os_error option \<times> filesystem" where
  \<comment> \<open>\<^verbatim>\<open>Path.mkdir(parents=parents, exist_ok=True)\<close>, as pathlib writes it: a missing
      parent is created first, and any other error is forgiven when the path is a
      directory. The result is the error raised, if any, and the filesystem as the call
      leaves it: the parents created before a failure stay.\<close>
  "mkdir fs p parents =
     (case os_mkdir fs p of
        Inr fs' \<Rightarrow> (None, fs')
      | Inl e \<Rightarrow>
         (if fst e = ENOENT then
            (if \<not> parents \<or> parent p = p then (Some e, fs)
             else case mkdir fs (parent p) True of
               (Some e', fs') \<Rightarrow> (Some e', fs')
             | (None, fs') \<Rightarrow> mkdir fs' p False)
          else if is_dir fs p then (None, fs) else (Some e, fs)))"
  by pat_completeness auto
termination
proof (relation "measures [\<lambda>(fs, p, parents). if parents then 1 else 0, \<lambda>(fs, p, parents). length (parts p)]")
  show "wf (measures [\<lambda>(fs, p, parents). if parents then 1 else 0, \<lambda>(fs, p, parents). length (parts p)])"
    by simp
next
  fix fs :: filesystem and p :: posix_path and parents :: bool and e :: os_error
  assume "\<not> (\<not> parents \<or> parent p = p)"
  then have "parts p \<noteq> []"
    by (cases p) (auto simp: parent_def)
  then show "((fs, parent p, True), (fs, p, parents)) \<in>
      measures [\<lambda>(fs, p, parents). if parents then 1 else 0, \<lambda>(fs, p, parents). length (parts p)]"
    using \<open>\<not> (\<not> parents \<or> parent p = p)\<close> by (simp add: parent_def)
next
  fix fs fs' :: filesystem and p :: posix_path and parents :: bool
  assume "\<not> (\<not> parents \<or> parent p = p)"
  then show "((fs', p, False), (fs, p, parents)) \<in>
      measures [\<lambda>(fs, p, parents). if parents then 1 else 0, \<lambda>(fs, p, parents). length (parts p)]"
    by simp
qed

declare mkdir.simps [simp del]

definition open_append :: "filesystem \<Rightarrow> posix_path \<Rightarrow> os_error + filesystem" where
  \<comment> \<open>\<^verbatim>\<open>open(p, 'a')\<close>: the file is created, empty, when it does not exist\<close>
  "open_append fs p =
     (if is_dir fs p then Inl (os_error_of EISDIR ''Is a directory'' p)
      else case resolve_parent fs p of
        Some e \<Rightarrow> Inl e
      | None \<Rightarrow>
         (case map_of (faults fs) (OpOpen, p) of
            Some (n, msg) \<Rightarrow> Inl (os_error_of n msg p)
          | None \<Rightarrow> Inr (if is_file fs p then fs else fs\<lparr>files := files fs @ [(p, [])]\<rparr>)))"

definition write_append :: "filesystem \<Rightarrow> posix_path \<Rightarrow> string \<Rightarrow> os_error + filesystem" where
  \<comment> \<open>\<^verbatim>\<open>f.write(data)\<close> on a file opened for appending, with the flush at the end of
      the \<^verbatim>\<open>with\<close> block: all of \<open>data\<close> goes after the present content, or the call
      fails and the content stays\<close>
  "write_append fs p data =
     (case map_of (faults fs) (OpWrite, p) of
        Some (n, msg) \<Rightarrow> Inl (os_error_of n msg p)
      | None \<Rightarrow> Inr (fs\<lparr>files := AList.update p (read_text fs p @ data) (files fs)\<rparr>))"

subsection \<open>int(s) for a string\<close>

definition is_digit :: "char \<Rightarrow> bool" where
  "is_digit c = ((48::nat) \<le> of_char c \<and> of_char c \<le> (57::nat))"

definition digit_val :: "char \<Rightarrow> nat" where
  "digit_val c = of_char c - 48"

definition nat_of_digits :: "string \<Rightarrow> nat" where
  "nat_of_digits ds = foldl (\<lambda>n c. 10 * n + digit_val c) 0 ds"

definition is_int_space :: "char \<Rightarrow> bool" where
  \<comment> \<open>the white space that \<^verbatim>\<open>int()\<close> strips: the ASCII one, and the two spaces of
      Latin-1 (NEL and the no-break space)\<close>
  "is_int_space c = (of_char c \<in> {9, 10, 11, 12, 13, 32, 133, 160::nat})"

fun digit_groups :: "bool \<Rightarrow> string \<Rightarrow> bool" where
  \<comment> \<open>digits with single underscores between them; the flag says that a digit has
      just been read\<close>
  "digit_groups after_digit [] = after_digit"
| "digit_groups after_digit (c # cs) =
     (if is_digit c then digit_groups True cs
      else if c = CHR ''_'' \<and> after_digit then digit_groups False cs
      else False)"

definition py_int :: "string \<Rightarrow> int option" where
  \<comment> \<open>\<^verbatim>\<open>int(s)\<close>; \<open>None\<close> is the \<^verbatim>\<open>ValueError\<close>. More than 4300 digits are
      refused (\<^verbatim>\<open>sys.int_max_str_digits\<close>).\<close>
  "py_int s =
     (let t = rev (dropWhile is_int_space (rev (dropWhile is_int_space s)));
          neg = (t \<noteq> [] \<and> hd t = CHR ''-'');
          body = (if t \<noteq> [] \<and> (hd t = CHR ''-'' \<or> hd t = CHR ''+'') then tl t else t);
          ds = filter is_digit body
      in if digit_groups False body \<and> length ds \<le> 4300
         then Some (if neg then - int (nat_of_digits ds) else int (nat_of_digits ds))
         else None)"

subsection \<open>datetime\<close>

text \<open>
  A \<^verbatim>\<open>datetime\<close> has its calendar fields and an optional UTC offset, in
  microseconds; without an offset it is naive. A \<^verbatim>\<open>timedelta\<close> is a number of
  microseconds.
\<close>

record datetime =
  year :: nat
  month :: nat
  day :: nat
  hour :: nat
  minute :: nat
  second :: nat
  microsecond :: nat
  utcoffset :: "int option"

definition is_leap :: "nat \<Rightarrow> bool" where
  "is_leap y = (y mod 4 = 0 \<and> (y mod 100 \<noteq> 0 \<or> y mod 400 = 0))"

definition days_before_year :: "nat \<Rightarrow> int" where
  "days_before_year y = (let y1 = int y - 1 in y1 * 365 + y1 div 4 - y1 div 100 + y1 div 400)"

definition days_in_month :: "nat \<Rightarrow> nat \<Rightarrow> nat" where
  "days_in_month y m =
     (if m = 2 \<and> is_leap y then 29 else [0, 31, 28, 31, 30, 31, 30, 31, 31, 30, 31, 30, 31] ! m)"

definition days_before_month :: "nat \<Rightarrow> nat \<Rightarrow> int" where
  "days_before_month y m =
     [0, 0, 31, 59, 90, 120, 151, 181, 212, 243, 273, 304, 334] ! m + (if m > 2 \<and> is_leap y then 1 else 0)"

definition toordinal :: "datetime \<Rightarrow> int" where
  "toordinal d = days_before_year (year d) + days_before_month (year d) (month d) + int (day d)"

definition make_datetime ::
  "nat \<Rightarrow> nat \<Rightarrow> nat \<Rightarrow> nat \<Rightarrow> nat \<Rightarrow> nat \<Rightarrow> nat \<Rightarrow> int option \<Rightarrow> datetime option" where
  \<comment> \<open>the constructor, with its range checks; \<open>None\<close> is the \<^verbatim>\<open>ValueError\<close>\<close>
  "make_datetime y mo d h mi s us off =
     (if 1 \<le> y \<and> y \<le> 9999 \<and> 1 \<le> mo \<and> mo \<le> 12 \<and> 1 \<le> d \<and> d \<le> days_in_month y mo \<and>
         h \<le> 23 \<and> mi \<le> 59 \<and> s \<le> 59 \<and> us \<le> 999999 \<and>
         (case off of None \<Rightarrow> True | Some x \<Rightarrow> - 86400000000 < x \<and> x < 86400000000)
      then Some \<lparr>year = y, month = mo, day = d, hour = h, minute = mi, second = s,
                 microsecond = us, utcoffset = off\<rparr>
      else None)"

definition datetime_sub :: "datetime \<Rightarrow> datetime \<Rightarrow> exc + int" where
  \<comment> \<open>\<^verbatim>\<open>a - b\<close>: the difference of the local fields when both are naive or have the
      same offset, corrected by the offsets when both have one, and a \<^verbatim>\<open>TypeError\<close>
      when only one of them has\<close>
  "datetime_sub a b =
     (let secs1 = int (second a) + int (minute a) * 60 + int (hour a) * 3600;
          secs2 = int (second b) + int (minute b) * 60 + int (hour b) * 3600;
          base = ((toordinal a - toordinal b) * 86400 + (secs1 - secs2)) * 1000000
                 + (int (microsecond a) - int (microsecond b))
      in if utcoffset a = utcoffset b then Inr base
         else case (utcoffset a, utcoffset b) of
           (Some myoff, Some otoff) \<Rightarrow> Inr (base + otoff - myoff)
         | _ \<Rightarrow> Inl TypeError)"

definition total_seconds :: "int \<Rightarrow> pyfloat" where
  \<comment> \<open>\<^verbatim>\<open>timedelta.total_seconds()\<close>: the microseconds divided by \<open>10^6\<close>\<close>
  "total_seconds us = Finite (of_int us / 1000000)"

definition isoformat :: "datetime \<Rightarrow> string" where
  \<comment> \<open>\<^verbatim>\<open>d.isoformat()\<close> of a naive datetime\<close>
  "isoformat d =
     zero_pad 4 (str_of_nat (year d)) @ ''-'' @ zero_pad 2 (str_of_nat (month d)) @ ''-'' @
     zero_pad 2 (str_of_nat (day d)) @ ''T'' @ zero_pad 2 (str_of_nat (hour d)) @ '':'' @
     zero_pad 2 (str_of_nat (minute d)) @ '':'' @ zero_pad 2 (str_of_nat (second d)) @
     (if microsecond d = 0 then [] else ''.'' @ zero_pad 6 (str_of_nat (microsecond d)))"

text \<open>
  \<^verbatim>\<open>datetime.fromisoformat\<close> with the grammar of Python 3.7 to 3.10,
  \<^verbatim>\<open>YYYY-MM-DD[*HH[:MM[:SS[.fff[fff]]]][+HH:MM[:SS[.ffffff]]]]\<close>; later versions read
  these texts the same way and accept further ones.
\<close>

definition parse_digits :: "string \<Rightarrow> nat option" where
  "parse_digits ds = (if ds \<noteq> [] \<and> list_all is_digit ds then Some (nat_of_digits ds) else None)"

fun parse_hh_mm_ss_ff :: "string \<Rightarrow> (nat \<times> nat \<times> nat \<times> nat) option" where
  \<comment> \<open>\<^verbatim>\<open>HH[:MM[:SS[.fff[fff]]]]\<close>\<close>
  "parse_hh_mm_ss_ff [h1, h2] =
     (case parse_digits [h1, h2] of Some h \<Rightarrow> Some (h, 0, 0, 0) | None \<Rightarrow> None)"
| "parse_hh_mm_ss_ff [h1, h2, c1, m1, m2] =
     (case (parse_digits [h1, h2], parse_digits [m1, m2]) of
        (Some h, Some m) \<Rightarrow> if c1 = CHR '':'' then Some (h, m, 0, 0) else None
      | _ \<Rightarrow> None)"
| "parse_hh_mm_ss_ff (h1 # h2 # c1 # m1 # m2 # c2 # s1 # s2 # ff) =
     (case (parse_digits [h1, h2], parse_digits [m1, m2], parse_digits [s1, s2]) of
        (Some h, Some m, Some s) \<Rightarrow>
          if c1 \<noteq> CHR '':'' \<or> c2 \<noteq> CHR '':'' then None
          else if ff = [] then Some (h, m, s, 0)
          else if hd ff \<noteq> CHR ''.'' then None
          else (case parse_digits (tl ff) of
                  None \<Rightarrow> None
                | Some f \<Rightarrow> if length (tl ff) = 3 then Some (h, m, s, f * 1000)
                            else if length (tl ff) = 6 then Some (h, m, s, f)
                            else None)
      | _ \<Rightarrow> None)"
| "parse_hh_mm_ss_ff _ = None"

definition parse_isoformat_time :: "string \<Rightarrow> (nat \<times> nat \<times> nat \<times> nat \<times> int option) option" where
  \<comment> \<open>the time and the offset; the offset starts at the first \<^verbatim>\<open>-\<close>, or else at the
      first \<^verbatim>\<open>+\<close>\<close>
  "parse_isoformat_time tstr =
     (let sign = (if CHR ''-'' \<in> set tstr then CHR ''-'' else CHR ''+'');
          timestr = takeWhile (\<lambda>c. c \<noteq> sign) tstr;
          tzpart = dropWhile (\<lambda>c. c \<noteq> sign) tstr
      in case parse_hh_mm_ss_ff timestr of
           None \<Rightarrow> None
         | Some (h, m, s, us) \<Rightarrow>
            (if tzpart = [] then Some (h, m, s, us, None)
             else if length (tl tzpart) \<notin> {5, 8, 15} then None
             else case parse_hh_mm_ss_ff (tl tzpart) of
               None \<Rightarrow> None
             | Some (th, tm, ts, tus) \<Rightarrow>
                 (let td = ((int th * 3600 + int tm * 60 + int ts) * 1000000 + int tus)
                  in Some (h, m, s, us, Some (if sign = CHR ''-'' then - td else td)))))"

definition fromisoformat :: "string \<Rightarrow> datetime option" where
  \<comment> \<open>\<open>None\<close> is the \<^verbatim>\<open>ValueError\<close>\<close>
  "fromisoformat date_string =
     (if length date_string < 10 then None
      else case (parse_digits (take 4 date_string), parse_digits (take 2 (drop 5 date_string)),
                 parse_digits (take 2 (drop 8 date_string))) of
        (Some y, Some mo, Some d) \<Rightarrow>
          if date_string ! 4 \<noteq> CHR ''-'' \<or> date_string ! 7 \<noteq> CHR ''-'' then None
          else if length date_string = 10 then make_datetime y mo d 0 0 0 0 None
          else (case parse_isoformat_time (drop 11 date_string) of
                  None \<Rightarrow> None
                | Some (h, mi, s, us, off) \<Rightarrow> make_datetime y mo d h mi s us off)
      | _ \<Rightarrow> None)"

definition append_text :: "filesystem \<Rightarrow> posix_path \<Rightarrow> string \<Rightarrow> os_error option \<times> filesystem" where
  \<comment> \<open>\<^verbatim>\<open>with open(p, 'a') as f: f.write(data)\<close>, with the error raised, if any, and
      the filesystem as the block leaves it\<close>
  "append_text fs p data =
     (case open_append fs p of
        Inl e \<Rightarrow> (Some e, fs)
      | Inr fs' \<Rightarrow>
         (case write_append fs' p data of
            Inl e \<Rightarrow> (Some e, fs')
          | Inr fs'' \<Rightarrow> (None, fs'')))"

subsection \<open>json.loads\<close>

text \<open>
  The decoder follows json.decoder and json.scanner: it works on the whole text and an
  index, and reports an error with the index where it stopped. An escaped code point
  above U+00FF is outside the strings of this model and is reported as an error. The recursion of the scanner is bounded by a fuel that the length of the text
  covers.
\<close>

datatype 'a scan_result = Ok 'a nat | StopIteration nat | DecodeError string nat | OutOfFuel

definition is_json_ws :: "char \<Rightarrow> bool" where
  "is_json_ws c = (c = CHR '' '' \<or> c = CHR 0x09 \<or> c = CHR 0x0A \<or> c = CHR 0x0D)"

definition skip_ws :: "string \<Rightarrow> nat \<Rightarrow> nat" where
  \<comment> \<open>\<^verbatim>\<open>WHITESPACE.match(s, idx).end()\<close>\<close>
  "skip_ws s idx = idx + length (takeWhile is_json_ws (drop idx s))"

definition char_at :: "string \<Rightarrow> nat \<Rightarrow> char option" where
  "char_at s idx = (if idx < length s then Some (s ! idx) else None)"

definition startswith_at :: "string \<Rightarrow> nat \<Rightarrow> string \<Rightarrow> bool" where
  "startswith_at s idx lit = (take (length lit) (drop idx s) = lit)"

definition hex_val :: "char \<Rightarrow> nat option" where
  "hex_val c =
     (let n = (of_char c :: nat)
      in if 48 \<le> n \<and> n \<le> 57 then Some (n - 48)
         else if 97 \<le> n \<and> n \<le> 102 then Some (n - 87)
         else if 65 \<le> n \<and> n \<le> 70 then Some (n - 55)
         else None)"

definition decode_uXXXX :: "string \<Rightarrow> nat option" where
  "decode_uXXXX hs =
     (case map hex_val hs of
        [Some a, Some b, Some c, Some d] \<Rightarrow> Some (a * 4096 + b * 256 + c * 16 + d)
      | _ \<Rightarrow> None)"

definition unescape :: "char \<Rightarrow> char option" where
  \<comment> \<open>\<^verbatim>\<open>BACKSLASH\<close> of json.decoder\<close>
  "unescape e =
     (if e = dquote then Some dquote
      else if e = backslash then Some backslash
      else if e = CHR ''/'' then Some CHR ''/''
      else if e = CHR ''b'' then Some (CHR 0x08)
      else if e = CHR ''f'' then Some (CHR 0x0C)
      else if e = CHR ''n'' then Some (CHR 0x0A)
      else if e = CHR ''r'' then Some (CHR 0x0D)
      else if e = CHR ''t'' then Some (CHR 0x09)
      else None)"

fun scanstring :: "nat \<Rightarrow> nat \<Rightarrow> string \<Rightarrow> string \<Rightarrow> string scan_result" where
  \<comment> \<open>\<^verbatim>\<open>scanstring\<close>: \<open>begin\<close> is the index of the opening quote, \<open>i\<close> the index of
      the next character, which heads the third argument\<close>
  "scanstring begin i [] acc = DecodeError ''Unterminated string starting at'' begin"
| "scanstring begin i (c # cs) acc =
     (if c = dquote then Ok acc (i + 1)
      else if c = backslash then
        (case cs of
           [] \<Rightarrow> DecodeError ''Unterminated string starting at'' begin
         | e # cs' \<Rightarrow>
            (if e = CHR ''u'' then
               (case decode_uXXXX (take 4 cs') of
                  None \<Rightarrow> DecodeError (''Invalid '' @ [backslash] @ ''uXXXX escape'') (i + 1)
                | Some n \<Rightarrow>
                   (if n < 256 then scanstring begin (i + 6) (drop 4 cs') (acc @ [char_of n])
                    else DecodeError ''Code point above U+00FF'' (i + 1)))
             else (case unescape e of
                     None \<Rightarrow> DecodeError (''Invalid '' @ [backslash] @ ''escape'') i
                   | Some ch \<Rightarrow> scanstring begin (i + 2) cs' (acc @ [ch]))))
      else if (of_char c :: nat) < 32 then DecodeError ''Invalid control character at'' i
      else scanstring begin (i + 1) cs (acc @ [c]))"

definition float_of_rat :: "rat \<Rightarrow> pyfloat" where
  \<comment> \<open>the float nearest to a rational, as far as this model tells floats apart: too
      large a value is an infinity, too small a one is zero\<close>
  "float_of_rat q =
     (if 2 ^ 1024 - 2 ^ 970 \<le> q then PosInf
      else if q \<le> - (2 ^ 1024 - 2 ^ 970) then NegInf
      else if \<bar>q\<bar> \<le> 1 / 2 ^ 1075 then Finite 0
      else Finite q)"

definition match_number :: "string \<Rightarrow> (json \<times> nat) option" where
  \<comment> \<open>\<^verbatim>\<open>NUMBER_RE\<close>, \<^verbatim>\<open>(-?(?:0|[1-9]\d*))(\.\d+)?([eE][-+]?\d+)?\<close>, matched at the
      head of the text: the number and the length of the match. With a fraction or an
      exponent the number is a float, else an int.\<close>
  "match_number cs =
     (let neg = (cs \<noteq> [] \<and> hd cs = CHR ''-'');
          r1 = (if neg then tl cs else cs);
          ds = takeWhile is_digit r1;
          ipart = (if ds \<noteq> [] \<and> hd ds = CHR ''0'' then ''0'' else ds);
          r2 = drop (length ipart) r1;
          fpart = (if r2 \<noteq> [] \<and> hd r2 = CHR ''.'' then takeWhile is_digit (tl r2) else []);
          r3 = (if fpart = [] then r2 else drop (1 + length fpart) r2);
          esign = (if r3 \<noteq> [] \<and> (hd r3 = CHR ''e'' \<or> hd r3 = CHR ''E'') \<and> tl r3 \<noteq> [] \<and>
                      (hd (tl r3) = CHR ''-'' \<or> hd (tl r3) = CHR ''+'') then [hd (tl r3)] else []);
          epart = (if r3 \<noteq> [] \<and> (hd r3 = CHR ''e'' \<or> hd r3 = CHR ''E'')
                   then takeWhile is_digit (drop (1 + length esign) r3) else []);
          n = (if neg then 1 else 0) + length ipart
              + (if fpart = [] then 0 else 1 + length fpart)
              + (if epart = [] then 0 else 1 + length esign + length epart);
          mant = int (nat_of_digits (ipart @ fpart));
          ex = (if esign = ''-'' then - int (nat_of_digits epart) else int (nat_of_digits epart))
               - int (length fpart);
          q = (if ex < 0 then of_int mant / 10 ^ nat (- ex) else of_int mant * 10 ^ nat ex)
      in if ipart = [] then None
         else if fpart = [] \<and> epart = [] then Some (JInt (if neg then - mant else mant), n)
         else Some (JFloat (float_of_rat (if neg then - q else q)), n))"

datatype task = Value nat | Members nat "(string \<times> json) list" | Elements nat "json list"

primrec scan :: "nat \<Rightarrow> string \<Rightarrow> task \<Rightarrow> json scan_result" where
  \<comment> \<open>the three mutually recursive readers of json.scanner and json.decoder, on one fuel:
      \<^verbatim>\<open>scan_once\<close> reads one value at an index, the loop of \<^verbatim>\<open>JSONObject\<close> reads the
      members from just after a key's opening quote, the loop of \<^verbatim>\<open>JSONArray\<close> reads
      the elements from the start of one\<close>
  "scan 0 s t = OutOfFuel"
| "scan (Suc fuel) s t =
     (case t of
        Value idx \<Rightarrow>
          (case char_at s idx of
             None \<Rightarrow> StopIteration idx
           | Some c \<Rightarrow>
              (if c = dquote then
                 (case scanstring idx (idx + 1) (drop (idx + 1) s) [] of
                    Ok str end \<Rightarrow> Ok (JStr str) end
                  | StopIteration p \<Rightarrow> StopIteration p
                  | DecodeError m p \<Rightarrow> DecodeError m p
                  | OutOfFuel \<Rightarrow> OutOfFuel)
               else if c = CHR ''{'' then
                 (let end = skip_ws s (idx + 1)
                  in if char_at s end = Some (CHR ''}'') then Ok (JDict []) (end + 1)
                     else if char_at s end \<noteq> Some dquote
                     then DecodeError ''Expecting property name enclosed in double quotes'' end
                     else scan fuel s (Members (end + 1) []))
               else if c = CHR ''['' then
                 (let end = skip_ws s (idx + 1)
                  in if char_at s end = Some (CHR '']'') then Ok (JList []) (end + 1)
                     else scan fuel s (Elements end []))
               else if c = CHR ''n'' \<and> startswith_at s idx ''null'' then Ok JNull (idx + 4)
               else if c = CHR ''t'' \<and> startswith_at s idx ''true'' then Ok (JBool True) (idx + 4)
               else if c = CHR ''f'' \<and> startswith_at s idx ''false'' then Ok (JBool False) (idx + 5)
               else (case match_number (drop idx s) of
                       Some (v, n) \<Rightarrow> Ok v (idx + n)
                     | None \<Rightarrow>
                        (if c = CHR ''N'' \<and> startswith_at s idx ''NaN'' then Ok (JFloat NaN) (idx + 3)
                         else if c = CHR ''I'' \<and> startswith_at s idx ''Infinity''
                         then Ok (JFloat PosInf) (idx + 8)
                         else if c = CHR ''-'' \<and> startswith_at s idx ''-Infinity''
                         then Ok (JFloat NegInf) (idx + 9)
                         else StopIteration idx))))
      | Members end pairs \<Rightarrow>
          (case scanstring (end - 1) end (drop end s) [] of
             StopIteration p \<Rightarrow> StopIteration p
           | DecodeError m p \<Rightarrow> DecodeError m p
           | OutOfFuel \<Rightarrow> OutOfFuel
           | Ok key end1 \<Rightarrow>
              (let end2 = skip_ws s end1
               in if char_at s end2 \<noteq> Some (CHR '':'') then DecodeError ''Expecting ':' delimiter'' end2
                  else (case scan fuel s (Value (skip_ws s (end2 + 1))) of
                          StopIteration p \<Rightarrow> DecodeError ''Expecting value'' p
                        | DecodeError m p \<Rightarrow> DecodeError m p
                        | OutOfFuel \<Rightarrow> OutOfFuel
                        | Ok v end3 \<Rightarrow>
                           (let end4 = skip_ws s end3;
                                pairs' = dict_setitem pairs key v
                            in if char_at s end4 = Some (CHR ''}'') then Ok (JDict pairs') (end4 + 1)
                               else if char_at s end4 \<noteq> Some (CHR '','')
                               then DecodeError ''Expecting ',' delimiter'' end4
                               else (let end5 = skip_ws s (end4 + 1)
                                     in if char_at s end5 \<noteq> Some dquote
                                        then DecodeError ''Expecting property name enclosed in double quotes'' end5
                                        else scan fuel s (Members (end5 + 1) pairs'))))))
      | Elements end vals \<Rightarrow>
          (case scan fuel s (Value end) of
             StopIteration p \<Rightarrow> DecodeError ''Expecting value'' p
           | DecodeError m p \<Rightarrow> DecodeError m p
           | OutOfFuel \<Rightarrow> OutOfFuel
           | Ok v end1 \<Rightarrow>
              (let end2 = skip_ws s end1
               in if char_at s end2 = Some (CHR '']'') then Ok (JList (vals @ [v])) (end2 + 1)
                  else if char_at s end2 \<noteq> Some (CHR '','')
                  then DecodeError ''Expecting ',' delimiter'' end2
                  else scan fuel s (Elements (skip_ws s (end2 + 1)) (vals @ [v])))))"

definition scan_once :: "nat \<Rightarrow> string \<Rightarrow> nat \<Rightarrow> json scan_result" where
  "scan_once fuel s idx = scan fuel s (Value idx)"

definition errmsg :: "string \<Rightarrow> string \<Rightarrow> nat \<Rightarrow> string" where
  \<comment> \<open>\<^verbatim>\<open>str(JSONDecodeError(msg, doc, pos))\<close>\<close>
  "errmsg msg doc pos =
     (let lineno = length (filter (\<lambda>c. c = newline) (take pos doc)) + 1;
          colno = length (takeWhile (\<lambda>c. c \<noteq> newline) (rev (take pos doc))) + 1
      in msg @ '': line '' @ str_of_nat lineno @ '' column '' @ str_of_nat colno @
         '' (char '' @ str_of_nat pos @ '')'')"

definition json_loads :: "string \<Rightarrow> string + json" where
  \<comment> \<open>\<^verbatim>\<open>json.loads(s)\<close>; \<open>Inl\<close> is the \<^verbatim>\<open>JSONDecodeError\<close>, with the text of
      \<^verbatim>\<open>str(e)\<close>\<close>
  "json_loads s =
     (case scan_once (2 * length s + 2) s (skip_ws s 0) of
        StopIteration p \<Rightarrow> Inl (errmsg ''Expecting value'' s p)
      | DecodeError m p \<Rightarrow> Inl (errmsg m s p)
      | OutOfFuel \<Rightarrow> Inl ''out of fuel''
      | Ok v end \<Rightarrow>
         (let end' = skip_ws s end
          in if end' \<noteq> length s then Inl (errmsg ''Extra data'' s end') else Inr v))"

subsection \<open>The agent\<close>

text \<open>
  The process environment is a partial map from names to values, the clock is the value
  of \<^verbatim>\<open>datetime.utcnow()\<close>. The result of a run is the way the process ends, the
  text it has written to the standard output and to the standard error stream, and the
  filesystem it leaves.
\<close>

type_synonym environ = "string \<rightharpoonup> string"

record result =
  outcome :: outcome
  stdout :: string
  stderr :: string
  fsys :: filesystem

definition environ_get :: "environ \<Rightarrow> string \<Rightarrow> string \<Rightarrow> string" where
  \<comment> \<open>\<^verbatim>\<open>os.environ.get(name, default)\<close>\<close>
  "environ_get env name d = (case env name of None \<Rightarrow> d | Some v \<Rightarrow> v)"

definition print :: "string \<Rightarrow> string" where
  \<comment> \<open>what \<^verbatim>\<open>print(s)\<close> writes to its stream\<close>
  "print s = s @ [newline]"

definition error_output :: "string \<Rightarrow> json" where
  "error_output msg = JDict [(''status'', JStr ''error''), (''error'', JStr msg)]"

definition build_metrics :: "environ \<Rightarrow> datetime \<Rightarrow> exc + (string \<times> json) list" where
  \<comment> \<open>lines 47 to 58: the dict display, its entries evaluated in order; \<^verbatim>\<open>int()\<close>
      raises \<^verbatim>\<open>ValueError\<close>\<close>
  "build_metrics env now =
     (case py_int (environ_get env ''EXIT_CODE'' ''-1'') of
        None \<Rightarrow> Inl ValueError
      | Some exit_code \<Rightarrow>
         (case py_int (environ_get env ''ATTEMPT'' ''1'') of
            None \<Rightarrow> Inl ValueError
          | Some attempt \<Rightarrow>
             Inr [(''timestamp'', JStr (isoformat now @ ''Z'')),
                  (''job_id'', JStr (environ_get env ''JOB_ID'' ''unknown'')),
                  (''run_id'', JStr (environ_get env ''RUN_ID'' ''unknown'')),
                  (''hook'', JStr (environ_get env ''HOOK'' ''unknown'')),
                  (''job_command'', JStr (environ_get env ''JOB_COMMAND'' '''')),
                  (''job_schedule'', JStr (environ_get env ''JOB_SCHEDULE'' '''')),
                  (''start_ts'', JStr (environ_get env ''START_TS'' '''')),
                  (''end_ts'', JStr (environ_get env ''END_TS'' '''')),
                  (''exit_code'', JInt exit_code),
                  (''attempt'', JInt attempt)]))"

definition add_custom :: "json \<Rightarrow> (string \<times> json) list \<Rightarrow> exc + (string \<times> json) list" where
  \<comment> \<open>lines 60 to 63: only a dict has \<^verbatim>\<open>get\<close>; on any other value the attribute
      lookup raises \<^verbatim>\<open>AttributeError\<close>\<close>
  "add_custom config metrics =
     (case config of
        JDict kvs \<Rightarrow>
          (let custom_metrics = dict_get kvs ''metrics'' (JDict [])
           in if truthy custom_metrics then Inr (dict_setitem metrics ''custom'' custom_metrics)
              else Inr metrics)
      | _ \<Rightarrow> Inl AttributeError)"

definition parse_ts :: "string \<Rightarrow> exc + datetime" where
  \<comment> \<open>\<^verbatim>\<open>datetime.fromisoformat(ts.replace('Z', '+00:00'))\<close>\<close>
  "parse_ts ts =
     (case fromisoformat (replace_char CHR ''Z'' ''+00:00'' ts) of
        None \<Rightarrow> Inl ValueError
      | Some d \<Rightarrow> Inr d)"

definition str_of :: "json \<Rightarrow> string" where
  \<comment> \<open>the text of an entry that holds a str\<close>
  "str_of v = (case v of JStr s \<Rightarrow> s | _ \<Rightarrow> [])"

definition add_duration :: "(string \<times> json) list \<Rightarrow> exc + (string \<times> json) list" where
  \<comment> \<open>lines 65 to 72: the body of the \<^verbatim>\<open>try\<close> parses both texts and subtracts; the
      handler drops a \<^verbatim>\<open>ValueError\<close> or an \<^verbatim>\<open>AttributeError\<close>, and any other
      exception leaves the function\<close>
  "add_duration metrics =
     (let start_ts = str_of (dict_get metrics ''start_ts'' JNull);
          end_ts = str_of (dict_get metrics ''end_ts'' JNull)
      in if start_ts \<noteq> [] \<and> end_ts \<noteq> [] then
           (case (case parse_ts start_ts of
                    Inl e \<Rightarrow> Inl e
                  | Inr start \<Rightarrow>
                     (case parse_ts end_ts of
                        Inl e \<Rightarrow> Inl e
                      | Inr end \<Rightarrow>
                         (case datetime_sub end start of
                            Inl e \<Rightarrow> Inl e
                          | Inr td \<Rightarrow> Inr (dict_setitem metrics ''duration_sec'' (JFloat (total_seconds td))))))
            of
              Inl e \<Rightarrow> if e = ValueError \<or> e = AttributeError then Inr metrics else Inl e
            | Inr metrics' \<Rightarrow> Inr metrics')
         else Inr metrics)"

definition metrics_record :: "environ \<Rightarrow> datetime \<Rightarrow> json \<Rightarrow> exc + (string \<times> json) list" where
  \<comment> \<open>lines 46 to 72, in order\<close>
  "metrics_record env now config =
     (case build_metrics env now of
        Inl e \<Rightarrow> Inl e
      | Inr metrics \<Rightarrow>
         (case add_custom config metrics of
            Inl e \<Rightarrow> Inl e
          | Inr metrics' \<Rightarrow> add_duration metrics'))"

definition success_output :: "posix_path \<Rightarrow> json" where
  "success_output metrics_file =
     JDict [(''status'', JStr ''ok''),
            (''metrics'', JDict [(''logged'', JInt 1), (''file'', JStr (path_str metrics_file))]),
            (''notes'', JStr (''Metrics appended to '' @ path_str metrics_file))]"

definition main :: "environ \<Rightarrow> datetime \<Rightarrow> filesystem \<Rightarrow> result" where
  "main env now fs =
     (case json_loads (environ_get env ''CONFIG_JSON'' ''{}'') of
        Inl e \<Rightarrow>
          \<lparr>outcome = Exit 1, stdout = [],
           stderr = print (json_dumps (error_output (''Invalid CONFIG_JSON: '' @ e))), fsys = fs\<rparr>
      | Inr config \<Rightarrow>
         (case env ''STATE_DIR'' of
            None \<Rightarrow>
              \<lparr>outcome = Exit 1, stdout = [],
               stderr = print (json_dumps (error_output ''STATE_DIR environment variable not set'')),
               fsys = fs\<rparr>
          | Some state_dir \<Rightarrow>
             (if state_dir = [] then
                \<lparr>outcome = Exit 1, stdout = [],
                 stderr = print (json_dumps (error_output ''STATE_DIR environment variable not set'')),
                 fsys = fs\<rparr>
              else
                (let state_path = Path state_dir
                 in case mkdir fs state_path True of
                      (Some e, fs1) \<Rightarrow>
                        \<lparr>outcome = Uncaught (OSError e), stdout = [], stderr = [], fsys = fs1\<rparr>
                    | (None, fs1) \<Rightarrow>
                       (case metrics_record env now config of
                          Inl e \<Rightarrow> \<lparr>outcome = Uncaught e, stdout = [], stderr = [], fsys = fs1\<rparr>
                        | Inr metrics \<Rightarrow>
                           (let metrics_file = path_div state_path ''metrics.jsonl''
                            in case append_text fs1 metrics_file (json_dumps (JDict metrics) @ [newline]) of
                                 (Some e, fs2) \<Rightarrow>
                                   \<lparr>outcome = Exit 1, stdout = [],
                                    stderr = print (json_dumps (error_output (''Failed to write metrics: '' @ snd e))),
                                    fsys = fs2\<rparr>
                               | (None, fs2) \<Rightarrow>
                                   \<lparr>outcome = Exit 0,
                                    stdout = print (json_dumps (success_output metrics_file)),
                                    stderr = [], fsys = fs2\<rparr>))))))"

definition can_append :: "filesystem \<Rightarrow> posix_path \<Rightarrow> bool" where
  \<comment> \<open>the open for appending and the write both go through\<close>
  "can_append fs p =
     (case open_append fs p of
        Inl e \<Rightarrow> False
      | Inr fs' \<Rightarrow> map_of (faults fs') (OpWrite, p) = None)"

fun invocations :: "(environ \<times> datetime) list \<Rightarrow> filesystem \<Rightarrow> outcome list \<times> filesystem" where
  \<comment> \<open>one run after the other, each on the filesystem the one before has left\<close>
  "invocations [] fs = ([], fs)"
| "invocations ((env, now) # rest) fs =
     (let r = main env now fs;
          (os, fs') = invocations rest (fsys r)
      in (outcome r # os, fs'))"

subsection \<open>Sample runs\<close>

definition now0 :: datetime where
  "now0 = \<lparr>year = 2024, month = 1, day = 5, hour = 3, minute = 4, second = 5,
            microsecond = 123, utcoffset = None\<rparr>"

definition fs0 :: filesystem where
  \<comment> \<open>nothing but the anchors exists, and no call is refused\<close>
  "fs0 = \<lparr>dirs = [], files = [], faults = []\<rparr>"


definition env_state_only :: environ where
  \<comment> \<open>only \<^verbatim>\<open>STATE_DIR\<close> is set\<close>
  "env_state_only = [''STATE_DIR'' \<mapsto> ''state'']"

definition env_bad_exit_code :: environ where
  "env_bad_exit_code = [''STATE_DIR'' \<mapsto> ''state'', ''EXIT_CODE'' \<mapsto> ''abc'']"





definition env_cpu_pct :: environ where
  \<open>env_cpu_pct = [''STATE_DIR'' \<mapsto> ''state'', ''CONFIG_JSON'' \<mapsto> ''{"metrics":{"cpu_pct":42}}'']\<close>

definition env_metrics_5 :: environ where
  \<comment> \<open>the \<^verbatim>\<open>metrics\<close> entry of the configuration is a number\<close>
  \<open>env_metrics_5 = [''STATE_DIR'' \<mapsto> ''state'', ''CONFIG_JSON'' \<mapsto> ''{"metrics": 5}'']\<close>

definition env_ten_seconds :: environ where
  "env_ten_seconds = [''STATE_DIR'' \<mapsto> ''state'', ''START_TS'' \<mapsto> ''2024-01-01T00:00:00Z'',
     ''END_TS'' \<mapsto> ''2024-01-01T00:00:10Z'']"

definition env_bad_start :: environ where
  "env_bad_start = [''STATE_DIR'' \<mapsto> ''state'', ''START_TS'' \<mapsto> ''yesterday'',
     ''END_TS'' \<mapsto> ''2024-01-01T00:00:10Z'']"

definition env_mixed_ts :: environ where
  \<comment> \<open>the start has an offset, the end has none\<close>
  "env_mixed_ts = [''STATE_DIR'' \<mapsto> ''state'', ''START_TS'' \<mapsto> ''2024-01-01T00:00:00Z'',
     ''END_TS'' \<mapsto> ''2024-01-01T00:00:10'']"

section \<open>Properties\<close>

subsection \<open>The two checks at the start\<close>

lemma json_loads_empty_object: "json_loads ''{}'' = Inr (JDict [])"
  by code_simp








subsection \<open>The filesystem operations\<close>

lemma os_mkdir_Inr:
  "os_mkdir fs p = Inr fs' \<Longrightarrow> fs' = fs\<lparr>dirs := dirs fs @ [p]\<rparr> \<and> is_dir fs (parent p) \<and> parts p \<noteq> []"
  by (auto simp: os_mkdir_def resolve_parent_def split: if_splits option.splits prod.splits)

lemma mkdir_frame:
  "mkdir fs p b = (r, fs') \<Longrightarrow> files fs' = files fs \<and> faults fs' = faults fs \<and> set (dirs fs) \<subseteq> set (dirs fs')"
proof (induction fs p b arbitrary: r fs' rule: mkdir.induct)
  case (1 fs p parents)
  note eq = "1.prems" [unfolded mkdir.simps [of fs p parents]]
  show ?case
  proof (cases "os_mkdir fs p")
    case (Inr fs1)
    with eq show ?thesis
      by (auto dest!: os_mkdir_Inr)
  next
    case (Inl e)
    show ?thesis
    proof (cases "fst e = ENOENT \<and> \<not> (\<not> parents \<or> parent p = p)")
      case False
      with Inl eq show ?thesis
        by (auto split: if_splits)
    next
      case True
      obtain r1 fs1 where m1: "mkdir fs (parent p) True = (r1, fs1)"
        by (cases "mkdir fs (parent p) True")
      from True Inl have ih1: "files fs1 = files fs \<and> faults fs1 = faults fs \<and> set (dirs fs) \<subseteq> set (dirs fs1)"
        using "1.IH"(1) [OF Inl _ _ m1] by simp
      show ?thesis
      proof (cases r1)
        case (Some e')
        with True Inl m1 eq ih1 show ?thesis
          by auto
      next
        case None
        with True Inl m1 eq have m2: "mkdir fs1 p False = (r, fs')"
          by auto
        have "files fs' = files fs1 \<and> faults fs' = faults fs1 \<and> set (dirs fs1) \<subseteq> set (dirs fs')"
          using "1.IH"(2) [OF Inl _ _ _ _ m2] True m1 None by auto
        with ih1 show ?thesis by auto
      qed
    qed
  qed
qed


lemma is_dir_mono: "set (dirs fs) \<subseteq> set (dirs fs') \<Longrightarrow> is_dir fs p \<Longrightarrow> is_dir fs' p"
  by (auto simp: is_dir_def)








lemma open_append_InrD:
  "open_append fs p = Inr fs' \<Longrightarrow>
     \<not> is_dir fs p \<and> fs' = (if is_file fs p then fs else fs\<lparr>files := files fs @ [(p, [])]\<rparr>)"
  by (simp add: open_append_def split: if_splits option.splits prod.splits)

lemma open_append_Inr:
  assumes "open_append fs p = Inr fs'"
  shows "dirs fs' = dirs fs" and "faults fs' = faults fs" and "read_text fs' q = read_text fs q"
    and "q \<noteq> p \<Longrightarrow> map_of (files fs') q = map_of (files fs) q"
    and "map_of (files fs') p = map_of (files fs) p \<or> (map_of (files fs) p = None \<and> map_of (files fs') p = Some [])"
    and "\<not> is_dir fs p"
proof -
  from open_append_InrD [OF assms] have nd: "\<not> is_dir fs p"
    and eq: "fs' = (if is_file fs p then fs else fs\<lparr>files := files fs @ [(p, [])]\<rparr>)"
    by simp_all
  from nd have np: "parts p \<noteq> []"
    by (simp add: is_dir_def)
  show "\<not> is_dir fs p" by (rule nd)
  show "dirs fs' = dirs fs" "faults fs' = faults fs"
    using eq by (simp_all split: if_splits)
  show "read_text fs' q = read_text fs q"
  proof (cases "is_file fs p")
    case True
    with eq show ?thesis by simp
  next
    case False
    with np have "map_of (files fs) p = None"
      by (simp add: is_file_def)
    with eq False show ?thesis
      by (cases "map_of (files fs) q") (auto simp: read_text_def map_of_append map_add_def)
  qed
  show "q \<noteq> p \<Longrightarrow> map_of (files fs') q = map_of (files fs) q"
    using eq by (cases "map_of (files fs) q") (auto simp: map_of_append map_add_def split: if_splits)
  show "map_of (files fs') p = map_of (files fs) p \<or> (map_of (files fs) p = None \<and> map_of (files fs') p = Some [])"
  proof (cases "is_file fs p")
    case True
    with eq show ?thesis by simp
  next
    case False
    with np have "map_of (files fs) p = None"
      by (simp add: is_file_def)
    with eq False show ?thesis
      by (simp add: map_of_append map_add_def)
  qed
qed

lemma write_append_InrD:
  "write_append fs p data = Inr fs' \<Longrightarrow>
     fs' = fs\<lparr>files := AList.update p (read_text fs p @ data) (files fs)\<rparr>"
  by (simp add: write_append_def split: option.splits prod.splits)

lemma write_append_Inr:
  assumes "write_append fs p data = Inr fs'"
  shows "dirs fs' = dirs fs" and "faults fs' = faults fs" and "read_text fs' p = read_text fs p @ data"
    and "q \<noteq> p \<Longrightarrow> map_of (files fs') q = map_of (files fs) q"
  using write_append_InrD [OF assms]
  by (simp_all add: read_text_def update_conv')

lemma append_text_None:
  assumes "append_text fs p data = (None, fs')"
  shows "dirs fs' = dirs fs" and "faults fs' = faults fs" and "read_text fs' p = read_text fs p @ data"
    and "q \<noteq> p \<Longrightarrow> map_of (files fs') q = map_of (files fs) q"
proof -
  from assms obtain fs1 where o: "open_append fs p = Inr fs1" and w: "write_append fs1 p data = Inr fs'"
    by (auto simp: append_text_def split: sum.splits)
  show "dirs fs' = dirs fs" "faults fs' = faults fs" "read_text fs' p = read_text fs p @ data"
    using open_append_Inr(1,2,3) [OF o] write_append_Inr(1,2,3) [OF w] by simp_all
  show "q \<noteq> p \<Longrightarrow> map_of (files fs') q = map_of (files fs) q"
    using open_append_Inr(4) [OF o] write_append_Inr(4) [OF w] by simp
qed



subsection \<open>The successful run\<close>

lemma main_Exit0:
  assumes "outcome (main env now fs) = Exit 0"
  obtains config d fs1 m where
    "json_loads (environ_get env ''CONFIG_JSON'' ''{}'') = Inr config"
    "env ''STATE_DIR'' = Some d" "d \<noteq> []"
    "mkdir fs (Path d) True = (None, fs1)"
    "metrics_record env now config = Inr m"
    "append_text fs1 (path_div (Path d) ''metrics.jsonl'') (json_dumps (JDict m) @ [newline])
       = (None, fsys (main env now fs))"
    "stdout (main env now fs) = print (json_dumps (success_output (path_div (Path d) ''metrics.jsonl'')))"
    "stderr (main env now fs) = []"
  using assms unfolding main_def
  by (auto simp: Let_def split: sum.splits option.splits if_splits prod.splits)

lemma main_success:
  assumes "json_loads (environ_get env ''CONFIG_JSON'' ''{}'') = Inr config"
    "env ''STATE_DIR'' = Some d" "d \<noteq> []"
    "mkdir fs (Path d) True = (None, fs1)"
    "metrics_record env now config = Inr m"
    "append_text fs1 (path_div (Path d) ''metrics.jsonl'') (json_dumps (JDict m) @ [newline]) = (None, fs2)"
  shows "main env now fs =
    \<lparr>outcome = Exit 0, stdout = print (json_dumps (success_output (path_div (Path d) ''metrics.jsonl''))),
     stderr = [], fsys = fs2\<rparr>"
  using assms unfolding main_def by (simp add: Let_def)

subsection \<open>The metrics record\<close>

lemma map_of_dict_setitem: "map_of (dict_setitem kvs k v) = (map_of kvs)(k \<mapsto> v)"
  by (induction kvs k v rule: dict_setitem.induct) auto

lemma dict_get_dict_setitem_other:
  "k' \<noteq> k \<Longrightarrow> dict_get (dict_setitem kvs k v) k' d = dict_get kvs k' d"
  by (simp add: dict_get_def map_of_dict_setitem)

lemma build_metrics_Inr:
  assumes "build_metrics env now = Inr m"
  obtains exit_code attempt where
    "py_int (environ_get env ''EXIT_CODE'' ''-1'') = Some exit_code"
    "py_int (environ_get env ''ATTEMPT'' ''1'') = Some attempt"
    "m = [(''timestamp'', JStr (isoformat now @ ''Z'')),
          (''job_id'', JStr (environ_get env ''JOB_ID'' ''unknown'')),
          (''run_id'', JStr (environ_get env ''RUN_ID'' ''unknown'')),
          (''hook'', JStr (environ_get env ''HOOK'' ''unknown'')),
          (''job_command'', JStr (environ_get env ''JOB_COMMAND'' '''')),
          (''job_schedule'', JStr (environ_get env ''JOB_SCHEDULE'' '''')),
          (''start_ts'', JStr (environ_get env ''START_TS'' '''')),
          (''end_ts'', JStr (environ_get env ''END_TS'' '''')),
          (''exit_code'', JInt exit_code),
          (''attempt'', JInt attempt)]"
  using assms by (auto simp: build_metrics_def split: option.splits)

lemma build_metrics_Inl:
  "build_metrics env now = Inl e \<Longrightarrow> e = ValueError"
  by (auto simp: build_metrics_def split: option.splits)

lemma build_metrics_ValueError:
  assumes "py_int (environ_get env ''EXIT_CODE'' ''-1'') = None \<or> py_int (environ_get env ''ATTEMPT'' ''1'') = None"
  shows "build_metrics env now = Inl ValueError"
  using assms by (auto simp: build_metrics_def split: option.splits)

lemma add_custom_Inr:
  assumes "add_custom config m = Inr m'"
  obtains kvs where "config = JDict kvs"
    "m' = (if truthy (dict_get kvs ''metrics'' (JDict []))
           then dict_setitem m ''custom'' (dict_get kvs ''metrics'' (JDict [])) else m)"
  using assms by (cases config) (auto simp: add_custom_def Let_def split: if_splits)

lemma add_duration_Inr:
  assumes "add_duration m = Inr m'"
  shows "m' = m \<or> (\<exists>td. m' = dict_setitem m ''duration_sec'' (JFloat (total_seconds td)))"
  using assms by (auto simp: add_duration_def Let_def split: if_splits sum.splits)

lemma metrics_record_Inr:
  assumes "metrics_record env now config = Inr m"
  obtains m0 m1 where "build_metrics env now = Inr m0" "add_custom config m0 = Inr m1" "add_duration m1 = Inr m"
  using assms by (auto simp: metrics_record_def split: sum.splits)

lemma metrics_record_fields:
  assumes "metrics_record env now config = Inr m"
    and "k \<noteq> ''custom''" and "k \<noteq> ''duration_sec''"
  shows "\<exists>m0. build_metrics env now = Inr m0 \<and> map_of m k = map_of m0 k"
proof -
  from assms(1) obtain m0 m1 where b: "build_metrics env now = Inr m0"
    and c: "add_custom config m0 = Inr m1" and d: "add_duration m1 = Inr m"
    by (rule metrics_record_Inr)
  from c assms(2) have "map_of m1 k = map_of m0 k"
    by (auto elim!: add_custom_Inr simp: map_of_dict_setitem)
  moreover from add_duration_Inr [OF d] assms(3) have "map_of m k = map_of m1 k"
    by (auto simp: map_of_dict_setitem)
  ultimately show ?thesis using b by auto
qed

lemma py_int_defaults: "py_int ''-1'' = Some (- 1)" "py_int ''1'' = Some 1"
  by code_simp+

lemma read_text_cong: "files fs' = files fs \<Longrightarrow> read_text fs' p = read_text fs p"
  by (simp add: read_text_def)

lemma main_Exit0_appends:
  assumes "outcome (main env now fs) = Exit 0" and "env ''STATE_DIR'' = Some d"
  obtains config m where
    "json_loads (environ_get env ''CONFIG_JSON'' ''{}'') = Inr config"
    "metrics_record env now config = Inr m"
    "read_text (fsys (main env now fs)) (path_div (Path d) ''metrics.jsonl'') =
       read_text fs (path_div (Path d) ''metrics.jsonl'') @ json_dumps (JDict m) @ [newline]"
proof -
  from assms(1) obtain config d' fs1 m where
    l: "json_loads (environ_get env ''CONFIG_JSON'' ''{}'') = Inr config"
    and sd: "env ''STATE_DIR'' = Some d'"
    and mk: "mkdir fs (Path d') True = (None, fs1)"
    and mr: "metrics_record env now config = Inr m"
    and ap: "append_text fs1 (path_div (Path d') ''metrics.jsonl'') (json_dumps (JDict m) @ [newline])
       = (None, fsys (main env now fs))"
    by (rule main_Exit0)
  from sd assms(2) have d: "d' = d" by simp
  from mkdir_frame [OF mk] have "files fs1 = files fs" by simp
  then have "read_text fs1 (path_div (Path d) ''metrics.jsonl'') = read_text fs (path_div (Path d) ''metrics.jsonl'')"
    by (rule read_text_cong)
  with append_text_None(3) [OF ap] d
  have "read_text (fsys (main env now fs)) (path_div (Path d) ''metrics.jsonl'') =
       read_text fs (path_div (Path d) ''metrics.jsonl'') @ json_dumps (JDict m) @ [newline]"
    by simp
  with l mr show thesis by (rule that)
qed

text \<open>
  Claim C8. In the record that a run appends, every optional variable that is absent
  from the environment has its documented default: \<^verbatim>\<open>job_id\<close>, \<^verbatim>\<open>run_id\<close> and
  \<^verbatim>\<open>hook\<close> are \<^verbatim>\<open>"unknown"\<close>; \<^verbatim>\<open>job_command\<close>, \<^verbatim>\<open>job_schedule\<close>,
  \<^verbatim>\<open>start_ts\<close> and \<^verbatim>\<open>end_ts\<close> are the empty string; \<^verbatim>\<open>exit_code\<close> is the
  integer -1 and \<^verbatim>\<open>attempt\<close> the integer 1. The record is the dict whose JSON text,
  with a newline, the run has put at the end of \<^verbatim>\<open>STATE_DIR/metrics.jsonl\<close>.
\<close>

theorem absent_variables_default:
  assumes "outcome (main env now fs) = Exit 0" and "env ''STATE_DIR'' = Some d"
  shows "\<exists>config m. metrics_record env now config = Inr m \<and>
      read_text (fsys (main env now fs)) (path_div (Path d) ''metrics.jsonl'') =
        read_text fs (path_div (Path d) ''metrics.jsonl'') @ json_dumps (JDict m) @ [newline] \<and>
      (env ''JOB_ID'' = None \<longrightarrow> map_of m ''job_id'' = Some (JStr ''unknown'')) \<and>
      (env ''RUN_ID'' = None \<longrightarrow> map_of m ''run_id'' = Some (JStr ''unknown'')) \<and>
      (env ''HOOK'' = None \<longrightarrow> map_of m ''hook'' = Some (JStr ''unknown'')) \<and>
      (env ''JOB_COMMAND'' = None \<longrightarrow> map_of m ''job_command'' = Some (JStr '''')) \<and>
      (env ''JOB_SCHEDULE'' = None \<longrightarrow> map_of m ''job_schedule'' = Some (JStr '''')) \<and>
      (env ''START_TS'' = None \<longrightarrow> map_of m ''start_ts'' = Some (JStr '''')) \<and>
      (env ''END_TS'' = None \<longrightarrow> map_of m ''end_ts'' = Some (JStr '''')) \<and>
      (env ''EXIT_CODE'' = None \<longrightarrow> map_of m ''exit_code'' = Some (JInt (- 1))) \<and>
      (env ''ATTEMPT'' = None \<longrightarrow> map_of m ''attempt'' = Some (JInt 1))"
proof -
  from assms obtain config m where
    mr: "metrics_record env now config = Inr m"
    and rd: "read_text (fsys (main env now fs)) (path_div (Path d) ''metrics.jsonl'') =
       read_text fs (path_div (Path d) ''metrics.jsonl'') @ json_dumps (JDict m) @ [newline]"
    by (rule main_Exit0_appends)
  from mr obtain m0 m1 where b: "build_metrics env now = Inr m0"
    by (rule metrics_record_Inr)
  from b obtain exit_code attempt where
    ec: "py_int (environ_get env ''EXIT_CODE'' ''-1'') = Some exit_code"
    and at: "py_int (environ_get env ''ATTEMPT'' ''1'') = Some attempt"
    and m0: "m0 = [(''timestamp'', JStr (isoformat now @ ''Z'')),
          (''job_id'', JStr (environ_get env ''JOB_ID'' ''unknown'')),
          (''run_id'', JStr (environ_get env ''RUN_ID'' ''unknown'')),
          (''hook'', JStr (environ_get env ''HOOK'' ''unknown'')),
          (''job_command'', JStr (environ_get env ''JOB_COMMAND'' '''')),
          (''job_schedule'', JStr (environ_get env ''JOB_SCHEDULE'' '''')),
          (''start_ts'', JStr (environ_get env ''START_TS'' '''')),
          (''end_ts'', JStr (environ_get env ''END_TS'' '''')),
          (''exit_code'', JInt exit_code),
          (''attempt'', JInt attempt)]"
    by (rule build_metrics_Inr)
  have same: "map_of m k = map_of m0 k" if "k \<noteq> ''custom''" "k \<noteq> ''duration_sec''" for k
    using metrics_record_fields [OF mr that] b by simp
  have "env ''JOB_ID'' = None \<longrightarrow> map_of m ''job_id'' = Some (JStr ''unknown'')"
    by (simp add: same m0 environ_get_def)
  moreover have "env ''RUN_ID'' = None \<longrightarrow> map_of m ''run_id'' = Some (JStr ''unknown'')"
    by (simp add: same m0 environ_get_def)
  moreover have "env ''HOOK'' = None \<longrightarrow> map_of m ''hook'' = Some (JStr ''unknown'')"
    by (simp add: same m0 environ_get_def)
  moreover have "env ''JOB_COMMAND'' = None \<longrightarrow> map_of m ''job_command'' = Some (JStr '''')"
    by (simp add: same m0 environ_get_def)
  moreover have "env ''JOB_SCHEDULE'' = None \<longrightarrow> map_of m ''job_schedule'' = Some (JStr '''')"
    by (simp add: same m0 environ_get_def)
  moreover have "env ''START_TS'' = None \<longrightarrow> map_of m ''start_ts'' = Some (JStr '''')"
    by (simp add: same m0 environ_get_def)
  moreover have "env ''END_TS'' = None \<longrightarrow> map_of m ''end_ts'' = Some (JStr '''')"
    by (simp add: same m0 environ_get_def)
  moreover have "env ''EXIT_CODE'' = None \<longrightarrow> map_of m ''exit_code'' = Some (JInt (- 1))"
    using ec by (auto simp: same m0 environ_get_def py_int_defaults)
  moreover have "env ''ATTEMPT'' = None \<longrightarrow> map_of m ''attempt'' = Some (JInt 1)"
    using at by (auto simp: same m0 environ_get_def py_int_defaults)
  ultimately show ?thesis
    using mr rd by - (rule exI [of _ config], rule exI [of _ m], simp)
qed

lemma run_state_only: "outcome (main env_state_only now0 fs0) = Exit 0"
  by code_simp

theorem absent_variables_default_witness:
  "outcome (main env_state_only now0 fs0) = Exit 0 \<and> env_state_only ''STATE_DIR'' = Some ''state'' \<and>
   (\<exists>config m. metrics_record env_state_only now0 config = Inr m \<and>
      read_text (fsys (main env_state_only now0 fs0)) (path_div (Path ''state'') ''metrics.jsonl'') =
        read_text fs0 (path_div (Path ''state'') ''metrics.jsonl'') @ json_dumps (JDict m) @ [newline] \<and>
      map_of m ''job_id'' = Some (JStr ''unknown'') \<and>
      map_of m ''run_id'' = Some (JStr ''unknown'') \<and>
      map_of m ''hook'' = Some (JStr ''unknown'') \<and>
      map_of m ''job_command'' = Some (JStr '''') \<and>
      map_of m ''job_schedule'' = Some (JStr '''') \<and>
      map_of m ''start_ts'' = Some (JStr '''') \<and>
      map_of m ''end_ts'' = Some (JStr '''') \<and>
      map_of m ''exit_code'' = Some (JInt (- 1)) \<and>
      map_of m ''attempt'' = Some (JInt 1))"
  using absent_variables_default [of env_state_only now0 fs0 "''state''"] run_state_only
  by (simp add: env_state_only_def)

subsection \<open>Runs that end in an exception or in a write error\<close>

lemma main_mkdir_fails:
  assumes "json_loads (environ_get env ''CONFIG_JSON'' ''{}'') = Inr config"
    and "env ''STATE_DIR'' = Some d" and "d \<noteq> []"
    and "mkdir fs (Path d) True = (Some e, fs1)"
  shows "main env now fs = \<lparr>outcome = Uncaught (OSError e), stdout = [], stderr = [], fsys = fs1\<rparr>"
  using assms unfolding main_def by (simp add: Let_def)

lemma main_record_raises:
  assumes "json_loads (environ_get env ''CONFIG_JSON'' ''{}'') = Inr config"
    and "env ''STATE_DIR'' = Some d" and "d \<noteq> []"
    and "mkdir fs (Path d) True = (None, fs1)"
    and "metrics_record env now config = Inl e"
  shows "main env now fs = \<lparr>outcome = Uncaught e, stdout = [], stderr = [], fsys = fs1\<rparr>"
  using assms unfolding main_def by (simp add: Let_def)

lemma main_write_fails:
  assumes "json_loads (environ_get env ''CONFIG_JSON'' ''{}'') = Inr config"
    and "env ''STATE_DIR'' = Some d" and "d \<noteq> []"
    and "mkdir fs (Path d) True = (None, fs1)"
    and "metrics_record env now config = Inr m"
    and "append_text fs1 (path_div (Path d) ''metrics.jsonl'') (json_dumps (JDict m) @ [newline]) = (Some e, fs2)"
  shows "main env now fs =
    \<lparr>outcome = Exit 1, stdout = [],
     stderr = print (json_dumps (error_output (''Failed to write metrics: '' @ snd e))), fsys = fs2\<rparr>"
  using assms unfolding main_def by (simp add: Let_def)

text \<open>
  Claim C6. When the configuration text is valid JSON, \<^verbatim>\<open>STATE_DIR\<close> is set and
  not empty, and \<^verbatim>\<open>EXIT_CODE\<close> or \<^verbatim>\<open>ATTEMPT\<close> is set to a text that
  \<^verbatim>\<open>int()\<close> rejects, the run ends in an exception that nothing catches (the
  \<^verbatim>\<open>ValueError\<close> of \<^verbatim>\<open>int()\<close>, or already the \<^verbatim>\<open>OSError\<close> of the directory
  creation before it): the exit status is not 0, the agent writes no object to either
  stream, and no regular file is created or changed, so no record is appended.
\<close>

theorem malformed_integer:
  assumes "json_loads (environ_get env ''CONFIG_JSON'' ''{}'') = Inr config"
    and "env ''STATE_DIR'' = Some d" and "d \<noteq> []"
    and "(\<exists>s. env ''EXIT_CODE'' = Some s \<and> py_int s = None) \<or>
         (\<exists>s. env ''ATTEMPT'' = Some s \<and> py_int s = None)"
  shows "(outcome (main env now fs) = Uncaught ValueError \<or>
          (\<exists>e. outcome (main env now fs) = Uncaught (OSError e))) \<and>
         exit_status (outcome (main env now fs)) \<noteq> 0 \<and>
         stdout (main env now fs) = [] \<and> stderr (main env now fs) = [] \<and>
         files (fsys (main env now fs)) = files fs"
proof -
  from assms(4) have "py_int (environ_get env ''EXIT_CODE'' ''-1'') = None \<or>
      py_int (environ_get env ''ATTEMPT'' ''1'') = None"
    by (auto simp: environ_get_def)
  then have "build_metrics env now = Inl ValueError"
    by (rule build_metrics_ValueError)
  then have mr: "metrics_record env now config = Inl ValueError"
    by (simp add: metrics_record_def)
  obtain r fs1 where mk: "mkdir fs (Path d) True = (r, fs1)"
    by (cases "mkdir fs (Path d) True")
  from mkdir_frame [OF mk] have fr: "files fs1 = files fs" by simp
  show ?thesis
  proof (cases r)
    case None
    with mk main_record_raises [OF assms(1-3) _ mr, of fs fs1] fr show ?thesis by simp
  next
    case (Some e)
    with mk main_mkdir_fails [OF assms(1-3), of fs e fs1 now] fr show ?thesis by simp
  qed
qed

lemma py_int_abc: "py_int ''abc'' = None"
  by code_simp

theorem malformed_integer_witness:
  "outcome (main env_bad_exit_code now0 fs0) = Uncaught ValueError \<and>
   exit_status (outcome (main env_bad_exit_code now0 fs0)) \<noteq> 0 \<and>
   stdout (main env_bad_exit_code now0 fs0) = [] \<and> stderr (main env_bad_exit_code now0 fs0) = [] \<and>
   files (fsys (main env_bad_exit_code now0 fs0)) = files fs0"
proof -
  have "outcome (main env_bad_exit_code now0 fs0) = Uncaught ValueError"
    by code_simp
  with malformed_integer [of env_bad_exit_code "JDict []" "''state''" now0 fs0]
  show ?thesis
    by (simp add: env_bad_exit_code_def environ_get_def json_loads_empty_object py_int_abc)
qed

















subsection \<open>Custom metrics\<close>

lemma build_metrics_no_custom:
  "build_metrics env now = Inr m0 \<Longrightarrow> map_of m0 ''custom'' = None \<and> map_of m0 ''duration_sec'' = None"
  by (erule build_metrics_Inr) simp

lemma metrics_record_custom:
  assumes "metrics_record env now (JDict kvs) = Inr m"
  shows "map_of m ''custom'' =
     (if truthy (dict_get kvs ''metrics'' (JDict [])) then Some (dict_get kvs ''metrics'' (JDict [])) else None)"
proof -
  from assms obtain m0 m1 where b: "build_metrics env now = Inr m0"
    and c: "add_custom (JDict kvs) m0 = Inr m1" and d: "add_duration m1 = Inr m"
    by (rule metrics_record_Inr)
  from c have "m1 = (if truthy (dict_get kvs ''metrics'' (JDict []))
           then dict_setitem m0 ''custom'' (dict_get kvs ''metrics'' (JDict [])) else m0)"
    by (simp add: add_custom_def Let_def split: if_splits)
  with build_metrics_no_custom [OF b] have "map_of m1 ''custom'' =
     (if truthy (dict_get kvs ''metrics'' (JDict [])) then Some (dict_get kvs ''metrics'' (JDict [])) else None)"
    by (simp add: map_of_dict_setitem)
  moreover from add_duration_Inr [OF d] have "map_of m ''custom'' = map_of m1 ''custom''"
    by (auto simp: map_of_dict_setitem)
  ultimately show ?thesis by simp
qed

lemma metrics_record_is_dict:
  "metrics_record env now config = Inr m \<Longrightarrow> \<exists>kvs. config = JDict kvs"
  by (auto elim!: metrics_record_Inr add_custom_Inr)

text \<open>
  Claim C3, as amended. The record that a run appends has the key \<^verbatim>\<open>custom\<close> if
  and only if the configuration object has a \<^verbatim>\<open>metrics\<close> entry whose value is true
  in Python's sense (a mapping, list or string that is not empty, a number other than
  zero, \<^verbatim>\<open>true\<close>), and then \<^verbatim>\<open>custom\<close> is that value as it is. In particular a
  non-empty \<^verbatim>\<open>metrics\<close> mapping is copied to \<^verbatim>\<open>custom\<close>, and a configuration
  whose \<^verbatim>\<open>metrics\<close> entry is absent or an empty mapping gives no \<^verbatim>\<open>custom\<close> key.
  The witness is the run with \<^verbatim>\<open>CONFIG_JSON='{"metrics":{"cpu_pct":42}}'\<close>, whose
  record has \<^verbatim>\<open>custom\<close> equal to \<^verbatim>\<open>{"cpu_pct": 42}\<close>.
\<close>

theorem custom_metrics:
  assumes "outcome (main env now fs) = Exit 0" and "env ''STATE_DIR'' = Some d"
  shows "\<exists>kvs m. json_loads (environ_get env ''CONFIG_JSON'' ''{}'') = Inr (JDict kvs) \<and>
      metrics_record env now (JDict kvs) = Inr m \<and>
      read_text (fsys (main env now fs)) (path_div (Path d) ''metrics.jsonl'') =
        read_text fs (path_div (Path d) ''metrics.jsonl'') @ json_dumps (JDict m) @ [newline] \<and>
      map_of m ''custom'' =
        (if truthy (dict_get kvs ''metrics'' (JDict [])) then Some (dict_get kvs ''metrics'' (JDict []))
         else None) \<and>
      (\<forall>kv. map_of kvs ''metrics'' = Some (JDict kv) \<and> kv \<noteq> [] \<longrightarrow> map_of m ''custom'' = Some (JDict kv)) \<and>
      (map_of kvs ''metrics'' = None \<or> map_of kvs ''metrics'' = Some (JDict []) \<longrightarrow> map_of m ''custom'' = None)"
proof -
  from assms obtain config m where
    l: "json_loads (environ_get env ''CONFIG_JSON'' ''{}'') = Inr config"
    and mr: "metrics_record env now config = Inr m"
    and rd: "read_text (fsys (main env now fs)) (path_div (Path d) ''metrics.jsonl'') =
       read_text fs (path_div (Path d) ''metrics.jsonl'') @ json_dumps (JDict m) @ [newline]"
    by (rule main_Exit0_appends)
  from metrics_record_is_dict [OF mr] obtain kvs where cfg: "config = JDict kvs" ..
  note cu = metrics_record_custom [OF mr [unfolded cfg]]
  have "\<forall>kv. map_of kvs ''metrics'' = Some (JDict kv) \<and> kv \<noteq> [] \<longrightarrow> map_of m ''custom'' = Some (JDict kv)"
    using cu by (auto simp: dict_get_def)
  moreover have "map_of kvs ''metrics'' = None \<or> map_of kvs ''metrics'' = Some (JDict []) \<longrightarrow> map_of m ''custom'' = None"
    using cu by (auto simp: dict_get_def)
  ultimately show ?thesis
    using l mr rd cu unfolding cfg by - (rule exI [of _ kvs], rule exI [of _ m], simp)
qed

lemma json_loads_cpu_pct:
  \<open>json_loads ''{"metrics":{"cpu_pct":42}}'' = Inr (JDict [(''metrics'', JDict [(''cpu_pct'', JInt 42)])])\<close>
  by code_simp

lemma run_cpu_pct:
  \<open>main env_cpu_pct now0 fs0 =
     \<lparr>outcome = Exit 0,
      stdout = ''{"status": "ok", "metrics": {"logged": 1, "file": "state/metrics.jsonl"}, "notes": "Metrics appended to state/metrics.jsonl"}'' @ [newline],
      stderr = [],
      fsys = \<lparr>dirs = [PosixPath [] [''state'']],
        files = [(PosixPath [] [''state'', ''metrics.jsonl''],
          ''{"timestamp": "2024-01-05T03:04:05.000123Z", "job_id": "unknown", "run_id": "unknown", "hook": "unknown", "job_command": "", "job_schedule": "", "start_ts": "", "end_ts": "", "exit_code": -1, "attempt": 1, "custom": {"cpu_pct": 42}}'' @ [newline])],
        faults = []\<rparr>\<rparr>\<close>
  by code_simp

theorem custom_metrics_witness:
  \<open>outcome (main env_cpu_pct now0 fs0) = Exit 0 \<and>
   json_loads (environ_get env_cpu_pct ''CONFIG_JSON'' ''{}'') = Inr (JDict [(''metrics'', JDict [(''cpu_pct'', JInt 42)])]) \<and>
   (\<exists>m. metrics_record env_cpu_pct now0 (JDict [(''metrics'', JDict [(''cpu_pct'', JInt 42)])]) = Inr m \<and>
      read_text (fsys (main env_cpu_pct now0 fs0)) (path_div (Path ''state'') ''metrics.jsonl'') =
        read_text fs0 (path_div (Path ''state'') ''metrics.jsonl'') @ json_dumps (JDict m) @ [newline] \<and>
      map_of m ''custom'' = Some (JDict [(''cpu_pct'', JInt 42)]))\<close>
proof -
  have h1: "outcome (main env_cpu_pct now0 fs0) = Exit 0"
    by (simp add: run_cpu_pct)
  have h2: "env_cpu_pct ''STATE_DIR'' = Some ''state''"
    by (simp add: env_cpu_pct_def)
  have l: \<open>json_loads (environ_get env_cpu_pct ''CONFIG_JSON'' ''{}'') = Inr (JDict [(''metrics'', JDict [(''cpu_pct'', JInt 42)])])\<close>
    by (simp add: env_cpu_pct_def environ_get_def json_loads_cpu_pct)
  from custom_metrics [OF h1 h2] obtain kvs m where
    "json_loads (environ_get env_cpu_pct ''CONFIG_JSON'' ''{}'') = Inr (JDict kvs)"
    and mr: "metrics_record env_cpu_pct now0 (JDict kvs) = Inr m"
    and rd: "read_text (fsys (main env_cpu_pct now0 fs0)) (path_div (Path ''state'') ''metrics.jsonl'') =
        read_text fs0 (path_div (Path ''state'') ''metrics.jsonl'') @ json_dumps (JDict m) @ [newline]"
    and cu: "\<forall>kv. map_of kvs ''metrics'' = Some (JDict kv) \<and> kv \<noteq> [] \<longrightarrow> map_of m ''custom'' = Some (JDict kv)"
    by blast
  with l have kvs: "kvs = [(''metrics'', JDict [(''cpu_pct'', JInt 42)])]"
    by simp
  from cu have "map_of m ''custom'' = Some (JDict [(''cpu_pct'', JInt 42)])"
    unfolding kvs by simp
  with mr rd show ?thesis
    unfolding kvs using h1 l by - (intro conjI, assumption, assumption, rule exI [of _ m], simp)
qed

text \<open>
  The claim as it was stated ties \<^verbatim>\<open>custom\<close> to a non-empty \<^verbatim>\<open>metrics\<close>
  mapping. With \<^verbatim>\<open>CONFIG_JSON='{"metrics": 5}'\<close> the configuration has no such
  mapping, and the appended record has \<^verbatim>\<open>"custom": 5\<close>.
\<close>

lemma run_metrics_5:
  \<open>main env_metrics_5 now0 fs0 =
     \<lparr>outcome = Exit 0,
      stdout = ''{"status": "ok", "metrics": {"logged": 1, "file": "state/metrics.jsonl"}, "notes": "Metrics appended to state/metrics.jsonl"}'' @ [newline],
      stderr = [],
      fsys = \<lparr>dirs = [PosixPath [] [''state'']],
        files = [(PosixPath [] [''state'', ''metrics.jsonl''],
          ''{"timestamp": "2024-01-05T03:04:05.000123Z", "job_id": "unknown", "run_id": "unknown", "hook": "unknown", "job_command": "", "job_schedule": "", "start_ts": "", "end_ts": "", "exit_code": -1, "attempt": 1, "custom": 5}'' @ [newline])],
        faults = []\<rparr>\<rparr>\<close>
  by code_simp

theorem custom_metrics_counterexample:
  \<open>json_loads (environ_get env_metrics_5 ''CONFIG_JSON'' ''{}'') = Inr (JDict [(''metrics'', JInt 5)]) \<and>
   \<not> is_dict (JInt 5) \<and>
   outcome (main env_metrics_5 now0 fs0) = Exit 0 \<and>
   read_text (fsys (main env_metrics_5 now0 fs0)) (PosixPath [] [''state'', ''metrics.jsonl'']) =
     ''{"timestamp": "2024-01-05T03:04:05.000123Z", "job_id": "unknown", "run_id": "unknown", "hook": "unknown", "job_command": "", "job_schedule": "", "start_ts": "", "end_ts": "", "exit_code": -1, "attempt": 1, "custom": 5}'' @ [newline]\<close>
proof -
  have \<open>json_loads (environ_get env_metrics_5 ''CONFIG_JSON'' ''{}'') = Inr (JDict [(''metrics'', JInt 5)])\<close>
    by code_simp
  then show ?thesis
    by (simp add: run_metrics_5 read_text_def)
qed

subsection \<open>The duration\<close>

lemma parse_ts_Inl: "parse_ts ts = Inl e \<Longrightarrow> e = ValueError"
  by (auto simp: parse_ts_def split: option.splits)

lemma datetime_sub_Inl: "datetime_sub a b = Inl e \<Longrightarrow> e = TypeError"
  by (auto simp: datetime_sub_def Let_def split: if_splits option.splits)

lemma add_duration_cases:
  assumes "dict_get m ''start_ts'' JNull = JStr st" and "dict_get m ''end_ts'' JNull = JStr en"
  shows "add_duration m =
     (if st \<noteq> [] \<and> en \<noteq> [] then
        (case parse_ts st of
           Inl e \<Rightarrow> Inr m
         | Inr a \<Rightarrow>
            (case parse_ts en of
               Inl e \<Rightarrow> Inr m
             | Inr b \<Rightarrow>
                (case datetime_sub b a of
                   Inl e \<Rightarrow> Inl TypeError
                 | Inr td \<Rightarrow> Inr (dict_setitem m ''duration_sec'' (JFloat (total_seconds td))))))
      else Inr m)"
  using assms
  by (auto simp: add_duration_def str_of_def Let_def split: sum.splits dest: parse_ts_Inl datetime_sub_Inl)

lemma add_custom_keeps_ts:
  assumes "build_metrics env now = Inr m0" and "add_custom config m0 = Inr m1"
  shows "dict_get m1 ''start_ts'' JNull = JStr (environ_get env ''START_TS'' '''')"
    and "dict_get m1 ''end_ts'' JNull = JStr (environ_get env ''END_TS'' '''')"
    and "map_of m1 ''duration_sec'' = None"
proof -
  from assms(2) have k: "map_of m1 k = map_of m0 k" if "k \<noteq> ''custom''" for k
    using that by (auto elim!: add_custom_Inr simp: map_of_dict_setitem)
  from assms(1) show "dict_get m1 ''start_ts'' JNull = JStr (environ_get env ''START_TS'' '''')"
    by (auto elim!: build_metrics_Inr simp: dict_get_def k)
  from assms(1) show "dict_get m1 ''end_ts'' JNull = JStr (environ_get env ''END_TS'' '''')"
    by (auto elim!: build_metrics_Inr simp: dict_get_def k)
  from assms(1) show "map_of m1 ''duration_sec'' = None"
    by (auto elim!: build_metrics_Inr simp: k)
qed

lemma metrics_record_duration:
  assumes "metrics_record env now config = Inr m"
  shows "(map_of m ''duration_sec'' \<noteq> None \<longleftrightarrow>
           environ_get env ''START_TS'' '''' \<noteq> [] \<and> environ_get env ''END_TS'' '''' \<noteq> [] \<and>
           (\<exists>a. parse_ts (environ_get env ''START_TS'' '''') = Inr a) \<and>
           (\<exists>b. parse_ts (environ_get env ''END_TS'' '''') = Inr b)) \<and>
         (\<forall>a b. environ_get env ''START_TS'' '''' \<noteq> [] \<and> environ_get env ''END_TS'' '''' \<noteq> [] \<and>
            parse_ts (environ_get env ''START_TS'' '''') = Inr a \<and>
            parse_ts (environ_get env ''END_TS'' '''') = Inr b \<longrightarrow>
            (\<exists>td. datetime_sub b a = Inr td \<and>
                  map_of m ''duration_sec'' = Some (JFloat (Finite (of_int td / 1000000)))))"
proof -
  from assms obtain m0 m1 where b: "build_metrics env now = Inr m0"
    and c: "add_custom config m0 = Inr m1" and d: "add_duration m1 = Inr m"
    by (rule metrics_record_Inr)
  note ts = add_custom_keeps_ts [OF b c]
  note eq = d [unfolded add_duration_cases [OF ts(1,2)]]
  show ?thesis
    using eq ts(3)
    by (auto simp: map_of_dict_setitem total_seconds_def split: if_splits sum.splits)
qed

lemma metrics_record_parse_failure:
  assumes "py_int (environ_get env ''EXIT_CODE'' ''-1'') \<noteq> None"
    and "py_int (environ_get env ''ATTEMPT'' ''1'') \<noteq> None"
    and "(\<forall>a. parse_ts (environ_get env ''START_TS'' '''') \<noteq> Inr a) \<or>
         (\<forall>b. parse_ts (environ_get env ''END_TS'' '''') \<noteq> Inr b)"
  shows "\<exists>m. metrics_record env now (JDict kvs) = Inr m \<and> map_of m ''duration_sec'' = None"
proof -
  from assms(1,2) obtain m0 where b: "build_metrics env now = Inr m0"
    by (auto simp: build_metrics_def)
  obtain m1 where c: "add_custom (JDict kvs) m0 = Inr m1"
    by (cases "truthy (dict_get kvs ''metrics'' (JDict []))") (simp_all add: add_custom_def Let_def)
  note ts = add_custom_keeps_ts [OF b c]
  from assms(3) have "add_duration m1 = Inr m1"
    unfolding add_duration_cases [OF ts(1,2)]
    by (auto split: sum.splits)
  with b c ts(3) show ?thesis
    by (simp add: metrics_record_def)
qed

lemma can_append_success:
  assumes "can_append fs p"
  shows "\<exists>fs'. append_text fs p data = (None, fs')"
proof -
  from assms obtain fs1 where o: "open_append fs p = Inr fs1" and f: "map_of (faults fs1) (OpWrite, p) = None"
    by (auto simp: can_append_def split: sum.splits)
  then show ?thesis
    by (simp add: append_text_def write_append_def)
qed

text \<open>
  Claim C2. In the record that a run appends, the key \<^verbatim>\<open>duration_sec\<close> is present
  if and only if \<^verbatim>\<open>start_ts\<close> and \<^verbatim>\<open>end_ts\<close> are both non-empty and both are
  read by \<^verbatim>\<open>datetime.fromisoformat\<close> once every \<^verbatim>\<open>Z\<close> is replaced by
  \<^verbatim>\<open>+00:00\<close>; its value is then the end minus the start, in seconds (a number of
  microseconds over \<open>10^6\<close>, negative when the end comes first). When either text
  fails to parse, and the rest of the run goes through (the configuration is an object,
  \<^verbatim>\<open>STATE_DIR\<close> is set and is created, the integers are well-formed and the file
  can be appended to), the run still exits with status 0 and appends the record, without
  \<^verbatim>\<open>duration_sec\<close>. The witness is the run with the start
  \<^verbatim>\<open>2024-01-01T00:00:00Z\<close> and the end \<^verbatim>\<open>2024-01-01T00:00:10Z\<close>, whose record has
  \<^verbatim>\<open>"duration_sec": 10.0\<close>, and the run with the start \<^verbatim>\<open>yesterday\<close>.
\<close>

theorem duration_sec:
  "(outcome (main env now fs) = Exit 0 \<and> env ''STATE_DIR'' = Some d \<longrightarrow>
     (\<exists>config m. metrics_record env now config = Inr m \<and>
        read_text (fsys (main env now fs)) (path_div (Path d) ''metrics.jsonl'') =
          read_text fs (path_div (Path d) ''metrics.jsonl'') @ json_dumps (JDict m) @ [newline] \<and>
        (map_of m ''duration_sec'' \<noteq> None \<longleftrightarrow>
           environ_get env ''START_TS'' '''' \<noteq> [] \<and> environ_get env ''END_TS'' '''' \<noteq> [] \<and>
           (\<exists>a. parse_ts (environ_get env ''START_TS'' '''') = Inr a) \<and>
           (\<exists>b. parse_ts (environ_get env ''END_TS'' '''') = Inr b)) \<and>
        (\<forall>a b. environ_get env ''START_TS'' '''' \<noteq> [] \<and> environ_get env ''END_TS'' '''' \<noteq> [] \<and>
            parse_ts (environ_get env ''START_TS'' '''') = Inr a \<and>
            parse_ts (environ_get env ''END_TS'' '''') = Inr b \<longrightarrow>
            (\<exists>td. datetime_sub b a = Inr td \<and>
                  map_of m ''duration_sec'' = Some (JFloat (Finite (of_int td / 1000000))))))) \<and>
   (json_loads (environ_get env ''CONFIG_JSON'' ''{}'') = Inr (JDict kvs) \<and>
    env ''STATE_DIR'' = Some d \<and> d \<noteq> [] \<and>
    mkdir fs (Path d) True = (None, fs1) \<and> can_append fs1 (path_div (Path d) ''metrics.jsonl'') \<and>
    py_int (environ_get env ''EXIT_CODE'' ''-1'') \<noteq> None \<and>
    py_int (environ_get env ''ATTEMPT'' ''1'') \<noteq> None \<and>
    ((\<forall>a. parse_ts (environ_get env ''START_TS'' '''') \<noteq> Inr a) \<or>
     (\<forall>b. parse_ts (environ_get env ''END_TS'' '''') \<noteq> Inr b)) \<longrightarrow>
    outcome (main env now fs) = Exit 0 \<and>
    (\<exists>m. metrics_record env now (JDict kvs) = Inr m \<and> map_of m ''duration_sec'' = None \<and>
       read_text (fsys (main env now fs)) (path_div (Path d) ''metrics.jsonl'') =
         read_text fs (path_div (Path d) ''metrics.jsonl'') @ json_dumps (JDict m) @ [newline]))"
proof (intro conjI impI)
  assume h: "outcome (main env now fs) = Exit 0 \<and> env ''STATE_DIR'' = Some d"
  then obtain config m where
    mr: "metrics_record env now config = Inr m"
    and rd: "read_text (fsys (main env now fs)) (path_div (Path d) ''metrics.jsonl'') =
       read_text fs (path_div (Path d) ''metrics.jsonl'') @ json_dumps (JDict m) @ [newline]"
    by (auto elim: main_Exit0_appends)
  from metrics_record_duration [OF mr] mr rd
  show "\<exists>config m. metrics_record env now config = Inr m \<and>
        read_text (fsys (main env now fs)) (path_div (Path d) ''metrics.jsonl'') =
          read_text fs (path_div (Path d) ''metrics.jsonl'') @ json_dumps (JDict m) @ [newline] \<and>
        (map_of m ''duration_sec'' \<noteq> None \<longleftrightarrow>
           environ_get env ''START_TS'' '''' \<noteq> [] \<and> environ_get env ''END_TS'' '''' \<noteq> [] \<and>
           (\<exists>a. parse_ts (environ_get env ''START_TS'' '''') = Inr a) \<and>
           (\<exists>b. parse_ts (environ_get env ''END_TS'' '''') = Inr b)) \<and>
        (\<forall>a b. environ_get env ''START_TS'' '''' \<noteq> [] \<and> environ_get env ''END_TS'' '''' \<noteq> [] \<and>
            parse_ts (environ_get env ''START_TS'' '''') = Inr a \<and>
            parse_ts (environ_get env ''END_TS'' '''') = Inr b \<longrightarrow>
            (\<exists>td. datetime_sub b a = Inr td \<and>
                  map_of m ''duration_sec'' = Some (JFloat (Finite (of_int td / 1000000)))))"
    by - (rule exI [of _ config], rule exI [of _ m], simp)
next
  assume h: "json_loads (environ_get env ''CONFIG_JSON'' ''{}'') = Inr (JDict kvs) \<and>
    env ''STATE_DIR'' = Some d \<and> d \<noteq> [] \<and>
    mkdir fs (Path d) True = (None, fs1) \<and> can_append fs1 (path_div (Path d) ''metrics.jsonl'') \<and>
    py_int (environ_get env ''EXIT_CODE'' ''-1'') \<noteq> None \<and>
    py_int (environ_get env ''ATTEMPT'' ''1'') \<noteq> None \<and>
    ((\<forall>a. parse_ts (environ_get env ''START_TS'' '''') \<noteq> Inr a) \<or>
     (\<forall>b. parse_ts (environ_get env ''END_TS'' '''') \<noteq> Inr b))"
  then obtain m where mr: "metrics_record env now (JDict kvs) = Inr m"
    and nd: "map_of m ''duration_sec'' = None"
    using metrics_record_parse_failure [of env now kvs] by blast
  from h obtain fs2 where
    ap: "append_text fs1 (path_div (Path d) ''metrics.jsonl'') (json_dumps (JDict m) @ [newline]) = (None, fs2)"
    using can_append_success by blast
  from h mr ap have r: "main env now fs =
    \<lparr>outcome = Exit 0, stdout = print (json_dumps (success_output (path_div (Path d) ''metrics.jsonl''))),
     stderr = [], fsys = fs2\<rparr>"
    by (intro main_success) simp_all
  then show "outcome (main env now fs) = Exit 0"
    by simp
  from h have e0: "outcome (main env now fs) = Exit 0" and sd: "env ''STATE_DIR'' = Some d"
    using r by simp_all
  from h have "files fs1 = files fs"
    using mkdir_frame by blast
  then have "read_text fs1 (path_div (Path d) ''metrics.jsonl'') = read_text fs (path_div (Path d) ''metrics.jsonl'')"
    by (rule read_text_cong)
  with append_text_None(3) [OF ap] r
  have "read_text (fsys (main env now fs)) (path_div (Path d) ''metrics.jsonl'') =
         read_text fs (path_div (Path d) ''metrics.jsonl'') @ json_dumps (JDict m) @ [newline]"
    by simp
  with mr nd show "\<exists>m. metrics_record env now (JDict kvs) = Inr m \<and> map_of m ''duration_sec'' = None \<and>
       read_text (fsys (main env now fs)) (path_div (Path d) ''metrics.jsonl'') =
         read_text fs (path_div (Path d) ''metrics.jsonl'') @ json_dumps (JDict m) @ [newline]"
    by - (rule exI [of _ m], simp)
qed


end
